theory Spec2Isabelle
  imports Main "HOL-Library.Sublist" "HOL-Library.Finite_Map"
begin

section \<open>JavaScript values used by the two source files\<close>

text \<open>
  A string is the list of the bytes of its UTF-8 encoding. The separators, digits and signs
  the code inspects (\<open>=\<close>, newline, \<open>/\<close>) are ASCII, and no byte of a longer UTF-8
  sequence is an ASCII byte, so splitting and searching the bytes agrees with the same
  operation on the JavaScript string. White space is the one place where the code looks at
  characters beyond ASCII; it is modelled by their byte sequences below.
\<close>

text \<open>\<open>String.prototype.split(sep)\<close> for a one-character separator: the pieces between
  the separators, empty pieces kept; the empty string gives one empty piece.\<close>

fun split_on :: "char \<Rightarrow> string \<Rightarrow> string list" where
  "split_on c [] = [[]]"
| "split_on c (x # xs) =
     (if x = c then [] # split_on c xs
      else (case split_on c xs of [] \<Rightarrow> [[x]] | w # ws \<Rightarrow> (x # w) # ws))"

text \<open>\<open>String.prototype.indexOf(c)\<close>: position of the first occurrence, \<open>-1\<close> when absent.\<close>

fun indexOf :: "char \<Rightarrow> string \<Rightarrow> int" where
  "indexOf c [] = - 1"
| "indexOf c (x # xs) =
     (if x = c then 0 else (let i = indexOf c xs in if i < 0 then - 1 else i + 1))"

text \<open>The relative index of \<open>slice\<close>: a negative index counts from the end, and the result
  is clamped to \<open>0 .. length\<close>.\<close>

definition rel_index :: "int \<Rightarrow> nat \<Rightarrow> nat" where
  "rel_index i n = (if i < 0 then nat (max (int n + i) 0) else min (nat i) n)"

text \<open>\<open>xs.slice(b, e)\<close> and \<open>xs.slice(b)\<close>, of strings and of arrays.\<close>

definition slice :: "'a list \<Rightarrow> int \<Rightarrow> int \<Rightarrow> 'a list" where
  "slice xs b e = (let n = length xs; lo = rel_index b n; hi = rel_index e n
                   in take (hi - lo) (drop lo xs))"

definition slice_from :: "'a list \<Rightarrow> int \<Rightarrow> 'a list" where
  "slice_from xs b = drop (rel_index b (length xs)) xs"

text \<open>\<open>Array.prototype.join(sep)\<close> on an array of strings.\<close>

fun join :: "string \<Rightarrow> string list \<Rightarrow> string" where
  "join sep [] = []"
| "join sep [x] = x"
| "join sep (x # y # ys) = x @ sep @ join sep (y # ys)"

text \<open>\<open>a || d\<close> where \<open>a\<close> is a string or absent (\<open>undefined\<close>, \<open>null\<close>): the empty
  string is falsy as well.\<close>

definition or_else :: "string option \<Rightarrow> string \<Rightarrow> string" where
  "or_else a d = (case a of None \<Rightarrow> d | Some s \<Rightarrow> if s = [] then d else s)"

text \<open>The truthiness of an optional string, as tested by \<open>if (x)\<close> and \<open>!x\<close>.\<close>

definition truthy :: "string option \<Rightarrow> bool" where
  "truthy a = (case a of None \<Rightarrow> False | Some s \<Rightarrow> s \<noteq> [])"

text \<open>Decimal rendering of a natural number and of an integer, as a template literal or
  \<open>String(n)\<close> prints an integral number.\<close>

function show_nat :: "nat \<Rightarrow> string" where
  "show_nat n = (if n < 10 then [''0123456789'' ! n]
                 else show_nat (n div 10) @ [''0123456789'' ! (n mod 10)])"
  by pat_completeness auto
termination
  by (relation "measure (\<lambda>n. n)") auto

definition show_int :: "int \<Rightarrow> string" where
  "show_int i = (if i < 0 then CHR ''-'' # show_nat (nat (- i)) else show_nat (nat i))"

text \<open>A thrown value: an \<open>Error\<close> object with its message, or any other value, kept as
  the text \<open>String(err)\<close> gives.\<close>

datatype thrown = Error string | NonError string

text \<open>A line written to the console.\<close>

datatype console_entry =
    ConsoleLog string
  | ConsoleWarn string thrown
  | ConsoleError string
  | ConsoleErrorWith string thrown

text \<open>An object used as a dictionary (\<open>Record<string, string>\<close>, \<open>process.env\<close>) is a
  finite map from keys to values: \<open>fmlookup e k\<close> reads \<open>e[k]\<close>, \<open>fmupd k v e\<close> is the
  object after \<open>e[k] = v\<close>, the spread \<open>{...a, ...b}\<close> is \<open>a ++\<^sub>f b\<close>, and
  \<open>Object.keys(e).length\<close> is \<open>fcard (fmdom e)\<close>. A spread and an entry of an object
  literal define the property, whatever its key.\<close>

type_synonym env = "(string, string) fmap"

text \<open>
  The assignment \<open>e[k] = v\<close> of a string \<open>v\<close> to a plain object (one created by \<open>{}\<close>):
  the own property \<open>k\<close> is stored, for every key but one. For the key \<open>__proto__\<close> the
  assignment runs the setter inherited from \<open>Object.prototype\<close>, which ignores a value
  that is not an object, so nothing is stored. Every other property of \<open>Object.prototype\<close>
  is a writable data property, which an assignment shadows with an own property.
\<close>

definition obj_set :: "string \<Rightarrow> string \<Rightarrow> env \<Rightarrow> env" where
  "obj_set k v e = (if k = ''__proto__'' then e else fmupd k v e)"

section \<open>EnvironmentCapture: \<open>loadUserShellEnv\<close>\<close>

text \<open>The body of the loop over the lines of the shell's output.\<close>

definition parse_env_line :: "env \<Rightarrow> string \<Rightarrow> env" where
  "parse_env_line e line =
     (let idx = indexOf CHR ''='' line in
      if idx > 0 then
        (let key = slice line 0 idx; val = slice_from line (idx + 1) in obj_set key val e)
      else e)"

text \<open>The loop: \<open>for (const line of result.split('\n'))\<close>, starting from the empty object.\<close>

definition parse_env_output :: "string \<Rightarrow> env" where
  "parse_env_output result =
     fold (\<lambda>line e. parse_env_line e line) (split_on CHR ''\<newline>'' result) fmempty"

text \<open>
  \<open>execFileSync(shell, args, {timeout, ...})\<close> is the environment's: it returns the
  standard output of the shell, or throws (the shell cannot be spawned, it runs past the
  timeout, it exits with a non-zero status). It is a parameter of the model, a function of
  the file, the arguments and the timeout in milliseconds.
\<close>

type_synonym exec_file_sync = "string \<Rightarrow> string list \<Rightarrow> nat \<Rightarrow> thrown + string"

text \<open>The \<open>try\<close> block of \<open>loadUserShellEnv\<close>: the environment read and the console lines
  written, or the value thrown.\<close>

definition loadUserShellEnv_body ::
  "exec_file_sync \<Rightarrow> env \<Rightarrow> thrown + (env \<times> console_entry list)" where
  "loadUserShellEnv_body execFileSync process_env =
     (let shell = or_else (fmlookup process_env ''SHELL'') ''/bin/zsh'' in
      case execFileSync shell [''-ilc'', ''env''] 5000 of
        Inl err \<Rightarrow> Inl err
      | Inr result \<Rightarrow>
          (let e = parse_env_output result in
           Inr (e, [ConsoleLog (''Loaded '' @ show_nat (fcard (fmdom e))
                                @ '' env vars from user shell'')])))"

text \<open>The whole function, with its \<open>catch\<close>: what the caller receives (\<open>Inl\<close> would be
  a value thrown to the caller).\<close>

definition loadUserShellEnv ::
  "exec_file_sync \<Rightarrow> env \<Rightarrow> thrown + (env \<times> console_entry list)" where
  "loadUserShellEnv execFileSync process_env =
     (case loadUserShellEnv_body execFileSync process_env of
        Inr r \<Rightarrow> Inr r
      | Inl err \<Rightarrow> Inr (fmempty, [ConsoleWarn ''Failed to load user shell env:'' err]))"


section \<open>The child's environment, built by \<open>startServer\<close>\<close>

text \<open>The keys the object literal sets after the three spreads, in the order written.\<close>

definition fixed_override_keys :: "string list" where
  "fixed_override_keys =
     [''PORT'', ''HOSTNAME'', ''CLAUDE_GUI_DATA_DIR'', ''ELECTRON_RUN_AS_NODE'', ''HOME'', ''PATH'']"

text \<open>\<open>userShellEnv.PATH || process.env.PATH || ''\<close>\<close>

definition shellPath :: "env \<Rightarrow> env \<Rightarrow> string" where
  "shellPath userShellEnv process_env =
     or_else (fmlookup userShellEnv ''PATH'') (or_else (fmlookup process_env ''PATH'') [])"

text \<open>The fixed entries of the literal; \<open>userData\<close> is \<open>app.getPath('userData')\<close> and
  \<open>home\<close> is \<open>os.homedir()\<close>.\<close>

definition fixed_overrides :: "env \<Rightarrow> env \<Rightarrow> nat \<Rightarrow> string \<Rightarrow> string \<Rightarrow> env" where
  "fixed_overrides userShellEnv process_env port userData home =
     (let basePath = ''/usr/local/bin:/opt/homebrew/bin:/usr/bin:/bin'' in
      fmap_of_list
        [(''PORT'', show_nat port),
         (''HOSTNAME'', ''127.0.0.1''),
         (''CLAUDE_GUI_DATA_DIR'', userData),
         (''ELECTRON_RUN_AS_NODE'', ''1''),
         (''HOME'', home),
         (''PATH'', basePath @ '':'' @ home @ ''/.npm-global/bin:'' @ home @ ''/.local/bin:''
                     @ home @ ''/.claude/bin:'' @ shellPath userShellEnv process_env)])"

text \<open>The object literal \<open>env\<close> of \<open>startServer\<close>: three spreads, then the fixed entries;
  a later layer overwrites an earlier one.\<close>

definition child_env :: "env \<Rightarrow> env \<Rightarrow> nat \<Rightarrow> string \<Rightarrow> string \<Rightarrow> env" where
  "child_env userShellEnv process_env port userData home =
     userShellEnv ++\<^sub>f process_env ++\<^sub>f userShellEnv
       ++\<^sub>f fixed_overrides userShellEnv process_env port userData home"

section \<open>The file-preview route: \<open>GET\<close>\<close>

text \<open>
  A JavaScript number as far as the route needs it: \<open>NaN\<close>, or the number written by a
  string of decimal digits. \<open>Num n\<close> stands for the double nearest to \<open>n\<close>, which is
  \<open>n\<close> itself up to \<open>2^53\<close> in magnitude; rounding is monotone and keeps \<open>1000\<close>,
  so the minimum with \<open>1000\<close> commutes with it.
\<close>

datatype js_number = NaN | Num int

text \<open>
  The white space that \<open>parseInt\<close> and \<open>trim\<close> skip (the language's \<open>WhiteSpace\<close> and
  \<open>LineTerminator\<close>), each character as its UTF-8 bytes: tab, line feed, vertical tab,
  form feed, carriage return, space, U+00A0, U+1680, U+2000 to U+200A, U+2028, U+2029,
  U+202F, U+205F, U+3000 and U+FEFF.
\<close>

definition white_space :: "string list" where
  "white_space =
     [[CHR 0x09], [CHR 0x0A], [CHR 0x0B], [CHR 0x0C], [CHR 0x0D], [CHR 0x20],
      [CHR 0xC2, CHR 0xA0],
      [CHR 0xE1, CHR 0x9A, CHR 0x80],
      [CHR 0xE2, CHR 0x80, CHR 0x80], [CHR 0xE2, CHR 0x80, CHR 0x81],
      [CHR 0xE2, CHR 0x80, CHR 0x82], [CHR 0xE2, CHR 0x80, CHR 0x83],
      [CHR 0xE2, CHR 0x80, CHR 0x84], [CHR 0xE2, CHR 0x80, CHR 0x85],
      [CHR 0xE2, CHR 0x80, CHR 0x86], [CHR 0xE2, CHR 0x80, CHR 0x87],
      [CHR 0xE2, CHR 0x80, CHR 0x88], [CHR 0xE2, CHR 0x80, CHR 0x89],
      [CHR 0xE2, CHR 0x80, CHR 0x8A],
      [CHR 0xE2, CHR 0x80, CHR 0xA8], [CHR 0xE2, CHR 0x80, CHR 0xA9],
      [CHR 0xE2, CHR 0x80, CHR 0xAF],
      [CHR 0xE2, CHR 0x81, CHR 0x9F],
      [CHR 0xE3, CHR 0x80, CHR 0x80],
      [CHR 0xEF, CHR 0xBB, CHR 0xBF]]"

text \<open>The length of the first of the sequences \<open>seqs\<close> that the string starts with, 0
  when it starts with none; and the string without every such sequence at its start.\<close>

definition leading_len :: "string list \<Rightarrow> string \<Rightarrow> nat" where
  "leading_len seqs s = (case find (\<lambda>w. prefix w s) seqs of None \<Rightarrow> 0 | Some w \<Rightarrow> length w)"

function skip_leading :: "string list \<Rightarrow> string \<Rightarrow> string" where
  "skip_leading seqs s =
     (if leading_len seqs s = 0 then s else skip_leading seqs (drop (leading_len seqs s) s))"
  by pat_completeness auto
termination
proof (relation "measure (\<lambda>(seqs, s). length s)")
  show "wf (measure (\<lambda>(seqs :: string list, s :: string). length s))"
    by simp
next
  fix seqs :: "string list" and s :: string
  assume n: "leading_len seqs s \<noteq> 0"
  then obtain w where w: "find (\<lambda>w. prefix w s) seqs = Some w" "leading_len seqs s = length w"
    by (auto simp: leading_len_def split: option.splits)
  then have "prefix w s"
    by (auto simp: find_Some_iff)
  with n w have "s \<noteq> []"
    by auto
  with n show "((seqs, drop (leading_len seqs s) s), (seqs, s))
                 \<in> measure (\<lambda>(seqs, s). length s)"
    by simp
qed

declare skip_leading.simps [simp del]


definition is_digit :: "char \<Rightarrow> bool" where
  "is_digit c = (c \<in> set ''0123456789'')"

definition digits_value :: "string \<Rightarrow> nat" where
  "digits_value ds = fold (\<lambda>c n. 10 * n + (of_char c - 48)) ds 0"

text \<open>\<open>parseInt(s, 10)\<close>: leading white space is skipped, one sign is read, then the
  longest run of decimal digits; with no digit the result is \<open>NaN\<close>. What follows the
  digits is ignored.\<close>

definition parseInt10 :: "string \<Rightarrow> js_number" where
  "parseInt10 s =
     (let t = skip_leading white_space s;
          neg = (t \<noteq> [] \<and> hd t = CHR ''-'');
          r = (if t \<noteq> [] \<and> (hd t = CHR ''-'' \<or> hd t = CHR ''+'') then tl t else t);
          ds = takeWhile is_digit r
      in if ds = [] then NaN
         else Num (if neg then - int (digits_value ds) else int (digits_value ds)))"

text \<open>\<open>Math.min(a, b)\<close>: \<open>NaN\<close> when an argument is \<open>NaN\<close>.\<close>

fun js_min :: "js_number \<Rightarrow> js_number \<Rightarrow> js_number" where
  "js_min (Num a) (Num b) = Num (min a b)"
| "js_min _ _ = NaN"


text \<open>The three search parameters the handler reads; \<open>searchParams.get\<close> gives
  \<open>null\<close> for a parameter that is absent.\<close>

record request =
  path_param :: "string option"
  maxLines_param :: "string option"
  baseDir_param :: "string option"

text \<open>\<open>NextResponse.json(body, {status})\<close>: an error body with its status, or the
  preview (status 200).\<close>

datatype 'p response = ErrorResponse string nat | FilePreviewResponse 'p

text \<open>
  What the handler imports and does not define: \<open>path.resolve\<close> and \<open>os.homedir\<close> of the
  platform, and \<open>isRootPath\<close>, \<open>isPathSafe\<close> and \<open>readFilePreview\<close> of \<open>@/lib/files\<close>,
  whose code is not among the sources. They are parameters of the model: the handler is
  verified for every choice of them. \<open>readFilePreview\<close> returns the preview or throws.
\<close>

record 'p platform =
  path_resolve :: "string \<Rightarrow> string"
  os_homedir :: string
  files_isRootPath :: "string \<Rightarrow> bool"
  files_isPathSafe :: "string \<Rightarrow> string \<Rightarrow> bool"
  files_readFilePreview :: "string \<Rightarrow> js_number \<Rightarrow> thrown + 'p"

text \<open>The \<open>try\<close>/\<open>catch\<close> around the read: one call of \<open>readFilePreview\<close>, recorded
  with its arguments.\<close>

definition read_and_respond ::
  "'p platform \<Rightarrow> string \<Rightarrow> js_number \<Rightarrow> 'p response \<times> (string \<times> js_number) list" where
  "read_and_respond pf resolvedPath maxLines =
     (let limit = js_min maxLines (Num 1000) in
      (case files_readFilePreview pf resolvedPath limit of
         Inr preview \<Rightarrow> FilePreviewResponse preview
       | Inl (Error msg) \<Rightarrow> ErrorResponse msg 500
       | Inl (NonError _) \<Rightarrow> ErrorResponse ''Failed to read file'' 500,
       [(resolvedPath, limit)]))"

text \<open>The handler. The result is the response together with the calls of
  \<open>readFilePreview\<close> made while computing it, in order: the only file I/O of the route.\<close>

definition GET :: "'p platform \<Rightarrow> request \<Rightarrow> 'p response \<times> (string \<times> js_number) list" where
  "GET pf req =
     (let maxLines = parseInt10 (or_else (maxLines_param req) ''200'') in
      case path_param req of
        None \<Rightarrow> (ErrorResponse ''Missing path parameter'' 400, [])
      | Some filePath \<Rightarrow>
          if filePath = [] then (ErrorResponse ''Missing path parameter'' 400, [])
          else
            (let resolvedPath = path_resolve pf filePath;
                 homeDir = os_homedir pf
             in if truthy (baseDir_param req) then
                  (let resolvedBase = path_resolve pf (or_else (baseDir_param req) []) in
                   if files_isRootPath pf resolvedBase then
                     (ErrorResponse ''Cannot use filesystem root as base directory'' 403, [])
                   else if \<not> files_isPathSafe pf resolvedBase resolvedPath then
                     (ErrorResponse ''File is outside the project scope'' 403, [])
                   else read_and_respond pf resolvedPath maxLines)
                else if \<not> files_isPathSafe pf homeDir resolvedPath then
                  (ErrorResponse ''File is outside the allowed scope'' 403, [])
                else read_and_respond pf resolvedPath maxLines))"

text \<open>Names for three expressions of the handler: \<open>path.resolve(filePath)\<close>,
  \<open>path.resolve(baseDir)\<close>, and the condition under which control reaches the read (the
  check of the branch the request takes).\<close>

abbreviation resolvedPath :: "'p platform \<Rightarrow> request \<Rightarrow> string" where
  "resolvedPath pf req \<equiv> path_resolve pf (or_else (path_param req) [])"

abbreviation resolvedBase :: "'p platform \<Rightarrow> request \<Rightarrow> string" where
  "resolvedBase pf req \<equiv> path_resolve pf (or_else (baseDir_param req) [])"

abbreviation guard_passes :: "'p platform \<Rightarrow> request \<Rightarrow> bool" where
  "guard_passes pf req \<equiv>
     (if truthy (baseDir_param req)
      then \<not> files_isRootPath pf (resolvedBase pf req)
           \<and> files_isPathSafe pf (resolvedBase pf req) (resolvedPath pf req)
      else files_isPathSafe pf (os_homedir pf) (resolvedPath pf req))"

section \<open>PathSandboxGuard\<close>

text \<open>The named segments of a path: the non-empty pieces between the separators.\<close>

definition segments :: "string \<Rightarrow> string list" where
  "segments p = filter (\<lambda>seg. seg \<noteq> []) (split_on CHR ''/'' p)"

text \<open>An absolute, normalized path, as \<open>path.resolve\<close> returns it on a platform whose
  separator is \<open>/\<close>: the separator followed by the named segments joined by the separator
  (so no empty segment and no trailing separator), none of them \<open>.\<close> or \<open>..\<close>.\<close>

definition normalized_abs :: "string \<Rightarrow> bool" where
  "normalized_abs p =
     (p = CHR ''/'' # join ''/'' (segments p) \<and> ''.'' \<notin> set (segments p) \<and> ''..'' \<notin> set (segments p))"

text \<open>Modelled from the spec: \<open>isPathSafe\<close> of \<open>@/lib/files\<close>, whose code is not among
  the sources. The spec: true iff the candidate's normalized segment sequence is a
  prefix-equal-or-longer superset of the base's segment sequence, segment-wise.\<close>

definition isPathSafe :: "string \<Rightarrow> string \<Rightarrow> bool" where
  "isPathSafe base candidate = prefix (segments base) (segments candidate)"

text \<open>Modelled from the spec: \<open>isRootPath\<close> of \<open>@/lib/files\<close>, whose code is not among
  the sources. The spec: true if the normalized path has no meaningful path segments below
  the root.\<close>

definition isRootPath :: "string \<Rightarrow> bool" where
  "isRootPath p = (segments p = [])"

section \<open>The Electron main process: supervisor and health-check poller\<close>

text \<open>
  The main process is single-threaded: a handler runs until it returns or awaits, and the
  runtime then delivers the next event. The model is a state record for the module's
  variables and the objects they refer to, one function per handler, and the events of the
  runtime as a datatype. What the environment decides (the port the system grants, what the
  health endpoint answers and when, what the child prints and when it exits) comes with the
  event.
\<close>

text \<open>How a child ended: the \<open>exit\<close> event carries a code, or \<open>null\<close> and a signal.\<close>

datatype exit_status = ExitCode int | Signal string

text \<open>A \<open>ChildProcess\<close> object: \<open>exitCode\<close> and \<open>signalCode\<close> are \<open>null\<close> while the
  process runs; \<open>killed\<close> says that \<open>kill()\<close> has sent it a signal. The other fields
  record what \<open>spawn\<close> was given.\<close>

record child_process =
  exitCode :: "int option"
  signalCode :: "string option"
  killed :: bool
  spawn_file :: string
  spawn_args :: "string list"
  spawn_env :: env
  spawn_cwd :: string

definition running :: "child_process \<Rightarrow> bool" where
  "running c = (exitCode c = None \<and> signalCode c = None)"

text \<open>
  The module's variables \<open>serverProcess\<close>, \<open>serverPort\<close>, \<open>serverErrors\<close> and
  \<open>userShellEnv\<close>; the \<open>ChildProcess\<close> objects created so far (\<open>serverProcess\<close> holds a
  reference, the position in \<open>children\<close>); the open windows with the address each has
  loaded (\<open>BrowserWindow.getAllWindows()\<close>); the console, the error boxes shown, whether
  \<open>app.quit()\<close> has been called, and the clock \<open>Date.now()\<close> in milliseconds. The variable
  \<open>mainWindow\<close> is only assigned, never read, and is left out.
\<close>

record main_state =
  serverProcess :: "nat option"
  serverPort :: "nat option"
  serverErrors :: "string list"
  userShellEnv :: env
  children :: "child_process list"
  windows :: "string list"
  console :: "console_entry list"
  dialogs :: "(string \<times> string) list"
  quit_called :: bool
  clock :: nat

definition initial_state :: main_state where
  "initial_state =
     \<lparr>serverProcess = None, serverPort = None, serverErrors = [], userShellEnv = fmempty,
      children = [], windows = [], console = [], dialogs = [], quit_called = False,
      clock = 0\<rparr>"

text \<open>What the process is given: \<open>app.isPackaged\<close> negated, the platform, \<open>process.env\<close>,
  \<open>process.resourcesPath\<close>, \<open>process.execPath\<close>, \<open>os.homedir()\<close>,
  \<open>app.getPath('userData')\<close>, and the behaviour of \<open>execFileSync\<close>.\<close>

record app_context =
  isDev :: bool
  is_darwin :: bool
  process_env :: env
  resourcesPath :: string
  execPath :: string
  homedir :: string
  userData :: string
  execFileSync :: exec_file_sync

text \<open>\<open>String.prototype.trim\<close>: white space is removed at the start and at the end.\<close>

definition trim :: "string \<Rightarrow> string" where
  "trim s = rev (skip_leading (map rev white_space) (rev (skip_leading white_space s)))"

text \<open>\<open>path.join(a, b)\<close> of a directory and a plain name.\<close>

definition path_join :: "string \<Rightarrow> string \<Rightarrow> string" where
  "path_join a b = a @ ''/'' @ b"

text \<open>The text a template literal prints for the \<open>code\<close> of an \<open>exit\<close> event.\<close>

definition show_code :: "int option \<Rightarrow> string" where
  "show_code code = (case code of None \<Rightarrow> ''null'' | Some n \<Rightarrow> show_int n)"

text \<open>The text of \<open>timeout / 1000\<close> for a whole number of milliseconds: the seconds, and
  the thousandths without trailing zeros when there are any.\<close>

definition show_seconds :: "nat \<Rightarrow> string" where
  "show_seconds ms =
     (let r = ms mod 1000;
          frac = [''0123456789'' ! (r div 100), ''0123456789'' ! (r div 10 mod 10),
                  ''0123456789'' ! (r mod 10)]
      in show_nat (ms div 1000)
         @ (if r = 0 then [] else CHR ''.'' # rev (dropWhile (\<lambda>c. c = CHR ''0'') (rev frac))))"

text \<open>The message of \<open>err instanceof Error ? err.message : String(err)\<close>.\<close>

definition thrown_text :: "thrown \<Rightarrow> string" where
  "thrown_text err = (case err of Error m \<Rightarrow> m | NonError t \<Rightarrow> t)"

subsection \<open>\<open>startServer\<close> and the handlers it installs\<close>

definition startServer :: "app_context \<Rightarrow> nat \<Rightarrow> main_state \<Rightarrow> nat \<times> main_state" where
  "startServer ctx port s =
     (let standaloneDir = path_join (resourcesPath ctx) ''standalone'';
          serverPath = path_join standaloneDir ''server.js'';
          nodePath = execPath ctx;
          child = \<lparr>exitCode = None, signalCode = None, killed = False,
                   spawn_file = ''/bin/sh'',
                   spawn_args = [''-c'', ''exec '' @ [CHR 0x22] @ nodePath @ [CHR 0x22] @ '' ''
                                         @ [CHR 0x22] @ serverPath @ [CHR 0x22]],
                   spawn_env = child_env (userShellEnv s) (process_env ctx) port
                                 (userData ctx) (homedir ctx),
                   spawn_cwd = standaloneDir\<rparr>
      in (length (children s),
          s\<lparr>console := console s @ [ConsoleLog (''Using Node.js: '' @ nodePath),
                                     ConsoleLog (''Server path: '' @ serverPath),
                                     ConsoleLog (''Standalone dir: '' @ standaloneDir)],
            serverErrors := [],
            children := children s @ [child]\<rparr>))"

text \<open>\<open>child.stdout.on('data', ...)\<close> and \<open>child.stderr.on('data', ...)\<close>.\<close>

definition on_stdout :: "string \<Rightarrow> main_state \<Rightarrow> main_state" where
  "on_stdout data s =
     (let msg = trim data in
      s\<lparr>console := console s @ [ConsoleLog (''[server] '' @ msg)],
        serverErrors := serverErrors s @ [msg]\<rparr>)"

definition on_stderr :: "string \<Rightarrow> main_state \<Rightarrow> main_state" where
  "on_stderr data s =
     (let msg = trim data in
      s\<lparr>console := console s @ [ConsoleError (''[server:err] '' @ msg)],
        serverErrors := serverErrors s @ [msg]\<rparr>)"

text \<open>\<open>child.on('exit', ...)\<close>: the handler of every child clears the one variable.\<close>

definition on_exit :: "int option \<Rightarrow> main_state \<Rightarrow> main_state" where
  "on_exit code s =
     s\<lparr>console := console s @ [ConsoleLog (''Server process exited with code '' @ show_code code)],
       serverProcess := None\<rparr>"

text \<open>What a child makes the runtime deliver: a chunk of its output, or its exit.\<close>

datatype child_event =
    ChildStdout nat string
  | ChildStderr nat string
  | ChildExit nat exit_status

definition record_exit :: "exit_status \<Rightarrow> child_process \<Rightarrow> child_process" where
  "record_exit st c =
     (case st of ExitCode n \<Rightarrow> c\<lparr>exitCode := Some n\<rparr> | Signal sg \<Rightarrow> c\<lparr>signalCode := Some sg\<rparr>)"

definition exit_code_of :: "exit_status \<Rightarrow> int option" where
  "exit_code_of st = (case st of ExitCode n \<Rightarrow> Some n | Signal sg \<Rightarrow> None)"

text \<open>
  The runtime, on the exit of a child, first sets \<open>exitCode\<close> (or \<open>signalCode\<close>) of the
  object and then emits \<open>exit\<close> to its handler, in one turn of the event loop: no other
  code of the program runs in between. Events of a child that does not exist, and the exit
  of a child that has exited, do not occur.
\<close>

definition deliver :: "child_event \<Rightarrow> main_state \<Rightarrow> main_state" where
  "deliver ev s =
     (case ev of
        ChildStdout c data \<Rightarrow> if c < length (children s) then on_stdout data s else s
      | ChildStderr c data \<Rightarrow> if c < length (children s) then on_stderr data s else s
      | ChildExit c st \<Rightarrow>
          if c < length (children s) \<and> running (children s ! c) then
            on_exit (exit_code_of st)
              (s\<lparr>children := (children s)[c := record_exit st (children s ! c)]\<rparr>)
          else s)"

definition deliver_all :: "child_event list \<Rightarrow> main_state \<Rightarrow> main_state" where
  "deliver_all evs s = fold deliver evs s"

text \<open>\<open>serverProcess.kill()\<close>: a running child is sent the signal and marked.\<close>

definition kill_child :: "nat \<Rightarrow> main_state \<Rightarrow> main_state" where
  "kill_child c s =
     (if c < length (children s) \<and> running (children s ! c)
      then s\<lparr>children := (children s)[c := (children s ! c)\<lparr>killed := True\<rparr>]\<rparr>
      else s)"

subsection \<open>\<open>waitForServer\<close>\<close>

text \<open>
  What the health endpoint does with one probe: it answers with a status after some
  milliseconds, the connection fails with an error after some milliseconds, or nothing
  happens. The probe's promise is settled by the first of the response, the error and the
  timer of \<open>req.setTimeout(1000, ...)\<close>.
\<close>

datatype probe_reply = Responds nat nat | Fails nat thrown | Silent

definition probe :: "probe_reply \<Rightarrow> (thrown + unit) \<times> nat" where
  "probe r =
     (case r of
        Responds d st \<Rightarrow>
          if d < 1000 then
            (if st = 200 then Inr () else Inl (Error (''Status '' @ show_nat st)), d)
          else (Inl (Error ''timeout''), 1000)
      | Fails d err \<Rightarrow> if d < 1000 then (Inl err, d) else (Inl (Error ''timeout''), 1000)
      | Silent \<Rightarrow> (Inl (Error ''timeout''), 1000))"

text \<open>One turn of the loop as the environment shapes it: the child events delivered while
  the loop awaits in this turn, and the endpoint's reply to this turn's probe. When the
  list of turns is used up, nothing arrives and the endpoint stays silent.\<close>

record tick =
  arrivals :: "child_event list"
  reply :: probe_reply

definition next_tick :: "tick list \<Rightarrow> tick" where
  "next_tick ticks = (case ticks of [] \<Rightarrow> \<lparr>arrivals = [], reply = Silent\<rparr> | t # _ \<Rightarrow> t)"

text \<open>\<open>serverProcess && serverProcess.exitCode !== null\<close>, with the code when it holds.\<close>

definition exited_code :: "main_state \<Rightarrow> int option" where
  "exited_code s =
     (case serverProcess s of
        None \<Rightarrow> None
      | Some c \<Rightarrow> if c < length (children s) then exitCode (children s ! c) else None)"

definition exited_message :: "int \<Rightarrow> string list \<Rightarrow> string" where
  "exited_message code errs =
     ''Server process exited with code '' @ show_int code @ ''.\<newline>\<newline>'' @ join ''\<newline>'' errs"

definition timeout_message :: "nat \<Rightarrow> string list \<Rightarrow> string" where
  "timeout_message timeout errs =
     ''Server startup timeout after '' @ show_seconds timeout @ ''s.\<newline>\<newline>''
     @ (if length errs > 0 then ''Server output:\<newline>'' @ join ''\<newline>'' (slice_from errs (- 10))
        else ''No server output captured.'')"

text \<open>The \<open>while\<close> loop. \<open>now\<close> is \<open>Date.now()\<close> at the head of the turn; a failed probe
  is followed by the sleep of 200 milliseconds. The result is what the function returns
  (\<open>Inr\<close>) or throws (\<open>Inl\<close>), the clock and the state.\<close>

function waitForServer_loop ::
  "tick list \<Rightarrow> nat \<Rightarrow> nat \<Rightarrow> nat \<Rightarrow> main_state \<Rightarrow> (thrown + unit) \<times> nat \<times> main_state" where
  "waitForServer_loop ticks start timeout now s =
     (if now - start < timeout then
        (case exited_code s of
           Some code \<Rightarrow> (Inl (Error (exited_message code (serverErrors s))), now, s)
         | None \<Rightarrow>
             (case probe (reply (next_tick ticks)) of
                (Inr _, d) \<Rightarrow> (Inr (), now + d, deliver_all (arrivals (next_tick ticks)) s)
              | (Inl _, d) \<Rightarrow>
                  waitForServer_loop (tl ticks) start timeout (now + d + 200)
                    (deliver_all (arrivals (next_tick ticks)) s)))
      else (Inl (Error (timeout_message timeout (serverErrors s))), now, s))"
  by pat_completeness auto
termination
  by (relation "measure (\<lambda>(ticks, start, timeout, now, s). start + timeout - now)") auto

declare waitForServer_loop.simps [simp del]

text \<open>\<open>waitForServer(port)\<close>: every caller leaves the timeout at its default.\<close>

definition waitForServer :: "tick list \<Rightarrow> main_state \<Rightarrow> (thrown + unit) \<times> main_state" where
  "waitForServer ticks s =
     (case waitForServer_loop ticks (clock s) 30000 (clock s) s of
        (r, now, s') \<Rightarrow> (r, s'\<lparr>clock := now\<rparr>))"

subsection \<open>The application's handlers\<close>

text \<open>\<open>createWindow(port)\<close>: one more window, loading the server's address.\<close>

definition createWindow :: "nat \<Rightarrow> main_state \<Rightarrow> main_state" where
  "createWindow port s = s\<lparr>windows := windows s @ [''http://127.0.0.1:'' @ show_nat port]\<rparr>"

text \<open>The body shared by \<open>before-quit\<close> and \<open>window-all-closed\<close>:
  \<open>if (serverProcess) { serverProcess.kill(); serverProcess = null; }\<close>\<close>

definition stop_server :: "main_state \<Rightarrow> main_state" where
  "stop_server s =
     (case serverProcess s of
        None \<Rightarrow> s
      | Some c \<Rightarrow> (kill_child c s)\<lparr>serverProcess := None\<rparr>)"

definition on_before_quit :: "main_state \<Rightarrow> main_state" where
  "on_before_quit s = stop_server s"

text \<open>\<open>app.quit()\<close>: \<open>before-quit\<close> is emitted, and the application ends.\<close>

definition app_quit :: "main_state \<Rightarrow> main_state" where
  "app_quit s = (on_before_quit s)\<lparr>quit_called := True\<rparr>"

text \<open>\<open>window-all-closed\<close>, emitted when the last window has closed.\<close>

definition on_window_all_closed :: "app_context \<Rightarrow> main_state \<Rightarrow> main_state" where
  "on_window_all_closed ctx s =
     (let s1 = stop_server (s\<lparr>windows := []\<rparr>) in
      if \<not> is_darwin ctx then app_quit s1 else s1)"

text \<open>The \<open>try\<close> block of the \<open>whenReady\<close> callback; \<open>granted\<close> is what \<open>getPort()\<close>
  resolves to or rejects with, \<open>ticks\<close> what happens while \<open>waitForServer\<close> polls.\<close>

definition ready_body ::
  "app_context \<Rightarrow> thrown + nat \<Rightarrow> tick list \<Rightarrow> main_state \<Rightarrow> (thrown + unit) \<times> main_state" where
  "ready_body ctx granted ticks s =
     (if isDev ctx then
        (Inr (), createWindow 3000
                   (s\<lparr>console := console s
                         @ [ConsoleLog ''Dev mode: connecting to http://127.0.0.1:3000''],
                      serverPort := Some 3000\<rparr>))
      else
        (case granted of
           Inl err \<Rightarrow> (Inl err, s)
         | Inr port \<Rightarrow>
             (let s1 = s\<lparr>console := console s
                          @ [ConsoleLog (''Starting server on port '' @ show_nat port @ ''...'')]\<rparr>;
                  (child, s2) = startServer ctx port s1;
                  s3 = s2\<lparr>serverProcess := Some child\<rparr>
              in case waitForServer ticks s3 of
                   (Inl err, s4) \<Rightarrow> (Inl err, s4)
                 | (Inr _, s4) \<Rightarrow>
                     (Inr (), createWindow port
                                (s4\<lparr>console := console s4 @ [ConsoleLog ''Server is ready''],
                                    serverPort := Some port\<rparr>)))))"

text \<open>The \<open>whenReady\<close> callback: the shell environment is read (\<open>loadUserShellEnv\<close> never
  throws, as proved below; were it to throw, the callback would end there), the Dock icon
  is set, which changes nothing of the state, and the \<open>try\<close> block runs with its
  \<open>catch\<close>: the error is logged, shown in an error box, and the application quits.\<close>

definition on_ready :: "app_context \<Rightarrow> thrown + nat \<Rightarrow> tick list \<Rightarrow> main_state \<Rightarrow> main_state" where
  "on_ready ctx granted ticks s =
     (case loadUserShellEnv (execFileSync ctx) (process_env ctx) of
        Inl err \<Rightarrow> s
      | Inr (e, logs) \<Rightarrow>
          (case ready_body ctx granted ticks (s\<lparr>userShellEnv := e, console := console s @ logs\<rparr>) of
             (Inr _, s') \<Rightarrow> s'
           | (Inl err, s') \<Rightarrow>
               app_quit
                 (s'\<lparr>console := console s' @ [ConsoleErrorWith ''Failed to start:'' err],
                     dialogs := dialogs s'
                       @ [(''CodePilot - Failed to Start'',
                           ''The internal server could not start.\<newline>\<newline>'' @ thrown_text err
                           @ ''\<newline>\<newline>Please try restarting the application.'')]\<rparr>)))"

text \<open>The \<open>try\<close> block of the \<open>activate\<close> handler, entered when no window is open:
  first the guarded restart, \<open>if (!isDev && !serverProcess) { ... }\<close>, then
  \<open>createWindow(serverPort || 3000)\<close>.\<close>

definition activate_restart ::
  "app_context \<Rightarrow> thrown + nat \<Rightarrow> tick list \<Rightarrow> main_state \<Rightarrow> (thrown + unit) \<times> main_state" where
  "activate_restart ctx granted ticks s =
     (if \<not> isDev ctx \<and> serverProcess s = None then
        (case granted of
           Inl err \<Rightarrow> (Inl err, s)
         | Inr port \<Rightarrow>
             (let (child, s1) = startServer ctx port s;
                  s2 = s1\<lparr>serverProcess := Some child\<rparr>
              in case waitForServer ticks s2 of
                   (Inl err, s3) \<Rightarrow> (Inl err, s3)
                 | (Inr _, s3) \<Rightarrow> (Inr (), s3\<lparr>serverPort := Some port\<rparr>)))
      else (Inr (), s))"

definition activate_body ::
  "app_context \<Rightarrow> thrown + nat \<Rightarrow> tick list \<Rightarrow> main_state \<Rightarrow> (thrown + unit) \<times> main_state" where
  "activate_body ctx granted ticks s =
     (case activate_restart ctx granted ticks s of
        (Inl err, s') \<Rightarrow> (Inl err, s')
      | (Inr _, s') \<Rightarrow>
          (Inr (), createWindow (case serverPort s' of None \<Rightarrow> 3000
                                  | Some p \<Rightarrow> if p = 0 then 3000 else p) s'))"

definition on_activate :: "app_context \<Rightarrow> thrown + nat \<Rightarrow> tick list \<Rightarrow> main_state \<Rightarrow> main_state" where
  "on_activate ctx granted ticks s =
     (if length (windows s) = 0 then
        (case activate_body ctx granted ticks s of
           (Inr _, s') \<Rightarrow> s'
         | (Inl err, s') \<Rightarrow>
             s'\<lparr>console := console s' @ [ConsoleErrorWith ''Failed to restart server:'' err]\<rparr>)
      else s)"

text \<open>
  The events of the application. An asynchronous handler is run to its end before the next
  event is handled, its awaits fed by what the event carries; of the events that can arrive
  while it awaits, those of the children are part of the \<open>ticks\<close>.
  After \<open>app.quit()\<close> nothing is handled.
\<close>

datatype event =
    WhenReady "thrown + nat" "tick list"
  | WindowAllClosed
  | Activate "thrown + nat" "tick list"
  | BeforeQuit
  | FromChild child_event

definition handle :: "app_context \<Rightarrow> event \<Rightarrow> main_state \<Rightarrow> main_state" where
  "handle ctx ev s =
     (if quit_called s then s
      else case ev of
             WhenReady granted ticks \<Rightarrow> on_ready ctx granted ticks s
           | WindowAllClosed \<Rightarrow> on_window_all_closed ctx s
           | Activate granted ticks \<Rightarrow> on_activate ctx granted ticks s
           | BeforeQuit \<Rightarrow> app_quit s
           | FromChild cev \<Rightarrow> deliver cev s)"

definition run :: "app_context \<Rightarrow> event list \<Rightarrow> main_state \<Rightarrow> main_state" where
  "run ctx evs s = fold (handle ctx) evs s"

text \<open>The children that run and have not been sent a signal, by reference.\<close>

definition live_children :: "main_state \<Rightarrow> nat list" where
  "live_children s =
     filter (\<lambda>c. running (children s ! c) \<and> \<not> killed (children s ! c)) [0 ..< length (children s)]"

section \<open>An example platform\<close>

text \<open>A platform to run the handler on: paths are taken as given (already absolute and
  normalized), the home directory is \<open>/home/alice\<close>, the two guards are the ones modelled
  from the spec, and every file reads as \<open>text\<close>.\<close>

definition example_platform :: "string platform" where
  "example_platform =
     \<lparr>path_resolve = (\<lambda>p. p), os_homedir = ''/home/alice'',
      files_isRootPath = isRootPath, files_isPathSafe = isPathSafe,
      files_readFilePreview = (\<lambda>p n. Inr ''text'')\<rparr>"

section \<open>An example run of the main process\<close>

text \<open>A packaged application on macOS whose login shell prints two variables.\<close>

definition example_context :: app_context where
  "example_context =
     \<lparr>isDev = False, is_darwin = True, process_env = fmempty,
      resourcesPath = ''/Applications/CodePilot.app/Contents/Resources'',
      execPath = ''/Applications/CodePilot.app/Contents/MacOS/CodePilot'',
      homedir = ''/Users/alice'', userData = ''/Users/alice/Library/Application Support/CodePilot'',
      execFileSync = (\<lambda>file args t. Inr ''PATH=/usr/bin\<newline>API_KEY=k=1\<newline>'')\<rparr>"

text \<open>The state in which \<open>waitForServer\<close> is entered: \<open>serverProcess = startServer(port)\<close>
  has just been executed, here from the initial state with port 4000.\<close>

definition example_started :: main_state where
  "example_started = (snd (startServer example_context 4000 initial_state))\<lparr>serverProcess := Some 0\<rparr>"

text \<open>Eleven chunks of output of the first child, ten on its standard output and one on
  its standard error.\<close>

definition example_eleven_chunks :: "child_event list" where
  "example_eleven_chunks =
        [ChildStdout 0 ''line 1'',
         ChildStdout 0 ''line 2'',
         ChildStderr 0 ''line 3'',
         ChildStdout 0 ''line 4'',
         ChildStdout 0 ''line 5'',
         ChildStdout 0 ''line 6'',
         ChildStdout 0 ''line 7'',
         ChildStdout 0 ''line 8'',
         ChildStdout 0 ''line 9'',
         ChildStdout 0 ''line 10'',
         ChildStdout 0 ''line 11'']"

text \<open>
  A sequence of events on macOS. The application starts and its server answers; the user
  closes the window, so the server is sent a signal and the variable is cleared; the user
  clicks the Dock icon, a second server is started, and while it is polled the first
  server's exit arrives; the user closes the window and clicks the Dock icon once more.
\<close>

definition example_trace :: "event list" where
  "example_trace =
     [WhenReady (Inr 4000) [\<lparr>arrivals = [], reply = Responds 10 200\<rparr>],
      WindowAllClosed,
      Activate (Inr 4001)
        [\<lparr>arrivals = [ChildExit 0 (Signal ''SIGTERM'')], reply = Responds 10 200\<rparr>],
      WindowAllClosed,
      Activate (Inr 4002) [\<lparr>arrivals = [], reply = Responds 10 200\<rparr>]]"

section \<open>Evaluating white space\<close>

lemmas ws_eval = skip_leading.simps leading_len_def white_space_def

section \<open>Properties of EnvironmentCapture\<close>















text \<open>
  Claim C6. \<open>loadUserShellEnv\<close> never throws to its caller: whatever \<open>execFileSync\<close> does
  and whatever \<open>process.env\<close> holds, it returns; and when \<open>execFileSync\<close> throws (the shell
  cannot be spawned, the timeout of 5000 milliseconds passes, the shell fails), it returns
  the empty object and writes one warning that carries the thrown value. Parsing is total:
  no output of the shell makes it throw.
\<close>

theorem loadUserShellEnv_never_throws:
  "(\<exists>e logs. loadUserShellEnv exec penv = Inr (e, logs))
   \<and> (exec (or_else (fmlookup penv ''SHELL'') ''/bin/zsh'') [''-ilc'', ''env''] 5000 = Inl err \<longrightarrow>
        loadUserShellEnv exec penv
          = Inr (fmempty, [ConsoleWarn ''Failed to load user shell env:'' err]))"
  by (auto simp: loadUserShellEnv_def loadUserShellEnv_body_def Let_def split: sum.splits)

theorem loadUserShellEnv_never_throws_witness:
  "loadUserShellEnv (\<lambda>file args t. Inl (Error ''spawnSync /bin/zsh ETIMEDOUT'')) fmempty
     = Inr (fmempty, [ConsoleWarn ''Failed to load user shell env:''
                        (Error ''spawnSync /bin/zsh ETIMEDOUT'')])"
  using loadUserShellEnv_never_throws
          [of "\<lambda>file args t. Inl (Error ''spawnSync /bin/zsh ETIMEDOUT'')" fmempty
              "Error ''spawnSync /bin/zsh ETIMEDOUT''"]
  by simp

section \<open>Properties of the child's environment\<close>

lemma fixed_overrides_dom:
  "fmlookup (fixed_overrides u p port ud h) k \<noteq> None \<longleftrightarrow> k \<in> set fixed_override_keys"
  by (simp add: fixed_overrides_def fixed_override_keys_def fmlookup_of_list Let_def)

lemma child_env_lookup:
  "fmlookup (child_env u p port ud h) k =
     (case fmlookup (fixed_overrides u p port ud h) k of
        Some v \<Rightarrow> Some v
      | None \<Rightarrow> (case fmlookup u k of Some v \<Rightarrow> Some v | None \<Rightarrow> fmlookup p k))"
  by (auto simp: child_env_def fmlookup_dom_iff split: option.splits)

text \<open>
  Claim C4. The child's environment is the captured shell environment, overwritten by
  \<open>process.env\<close>, overwritten by the captured shell environment again, overwritten by the
  fixed entries. So a key that is not one of the six fixed keys has the captured shell
  value when the shell environment has the key (also when \<open>process.env\<close> has it too), and
  the value of \<open>process.env\<close> otherwise; each of the six fixed keys has its fixed value,
  whatever the two environments hold. The environment \<open>startServer\<close> hands to \<open>spawn\<close> is
  this one.
\<close>

theorem child_env_precedence:
  "child_env u p port ud h = u ++\<^sub>f p ++\<^sub>f u ++\<^sub>f fixed_overrides u p port ud h
   \<and> (k \<notin> set fixed_override_keys \<longrightarrow>
      fmlookup (child_env u p port ud h) k =
        (case fmlookup u k of Some v \<Rightarrow> Some v | None \<Rightarrow> fmlookup p k))
   \<and> (k \<notin> set fixed_override_keys \<and> fmlookup u k = Some v \<longrightarrow>
        fmlookup (child_env u p port ud h) k = Some v)
   \<and> (k \<in> set fixed_override_keys \<longrightarrow>
        fmlookup (child_env u p port ud h) k = fmlookup (fixed_overrides u p port ud h) k
        \<and> fmlookup (fixed_overrides u p port ud h) k \<noteq> None)
   \<and> fmlookup (child_env u p port ud h) ''PORT'' = Some (show_nat port)
   \<and> fmlookup (child_env u p port ud h) ''HOSTNAME'' = Some ''127.0.0.1''
   \<and> fmlookup (child_env u p port ud h) ''CLAUDE_GUI_DATA_DIR'' = Some ud
   \<and> fmlookup (child_env u p port ud h) ''ELECTRON_RUN_AS_NODE'' = Some ''1''
   \<and> fmlookup (child_env u p port ud h) ''HOME'' = Some h
   \<and> fmlookup (child_env u p port ud h) ''PATH'' =
        Some (''/usr/local/bin:/opt/homebrew/bin:/usr/bin:/bin:'' @ h @ ''/.npm-global/bin:''
              @ h @ ''/.local/bin:'' @ h @ ''/.claude/bin:'' @ shellPath u p)
   \<and> spawn_env (last (children (snd (startServer ctx port s)))) =
        child_env (userShellEnv s) (process_env ctx) port (userData ctx) (homedir ctx)"
proof -
  have a: "k \<notin> set fixed_override_keys \<Longrightarrow> fmlookup (fixed_overrides u p port ud h) k = None"
    using fixed_overrides_dom [of u p port ud h k] by simp
  have b: "k \<in> set fixed_override_keys \<Longrightarrow> fmlookup (fixed_overrides u p port ud h) k \<noteq> None"
    using fixed_overrides_dom [of u p port ud h k] by simp
  have c: "fmlookup (fixed_overrides u p port ud h) ''PORT'' = Some (show_nat port)"
    "fmlookup (fixed_overrides u p port ud h) ''HOSTNAME'' = Some ''127.0.0.1''"
    "fmlookup (fixed_overrides u p port ud h) ''CLAUDE_GUI_DATA_DIR'' = Some ud"
    "fmlookup (fixed_overrides u p port ud h) ''ELECTRON_RUN_AS_NODE'' = Some ''1''"
    "fmlookup (fixed_overrides u p port ud h) ''HOME'' = Some h"
    "fmlookup (fixed_overrides u p port ud h) ''PATH'' =
        Some (''/usr/local/bin:/opt/homebrew/bin:/usr/bin:/bin:'' @ h @ ''/.npm-global/bin:''
              @ h @ ''/.local/bin:'' @ h @ ''/.claude/bin:'' @ shellPath u p)"
    by (simp_all add: fixed_overrides_def fmlookup_of_list Let_def)
  have d: "spawn_env (last (children (snd (startServer ctx port s)))) =
        child_env (userShellEnv s) (process_env ctx) port (userData ctx) (homedir ctx)"
    by (simp add: startServer_def Let_def)
  have e: "child_env u p port ud h = u ++\<^sub>f p ++\<^sub>f u ++\<^sub>f fixed_overrides u p port ud h"
    by (simp add: child_env_def)
  have "fmlookup (child_env u p port ud h) k' =
          (case fmlookup (fixed_overrides u p port ud h) k' of
             Some v \<Rightarrow> Some v
           | None \<Rightarrow> (case fmlookup u k' of Some v \<Rightarrow> Some v | None \<Rightarrow> fmlookup p k'))" for k'
    by (rule child_env_lookup)
  with a b c d show ?thesis
    by (intro conjI impI e) (auto split: option.splits)
qed

theorem child_env_precedence_witness:
  "fmlookup (child_env (fmap_of_list [(''API_KEY'', ''from-shell''), (''PORT'', ''1'')])
                       (fmap_of_list [(''API_KEY'', ''from-parent''), (''PORT'', ''2'')])
                       4000 ''/data'' ''/Users/u'') ''API_KEY'' = Some ''from-shell''
   \<and> fmlookup (child_env (fmap_of_list [(''API_KEY'', ''from-shell''), (''PORT'', ''1'')])
                       (fmap_of_list [(''API_KEY'', ''from-parent''), (''PORT'', ''2'')])
                       4000 ''/data'' ''/Users/u'') ''PORT'' = Some ''4000''"
proof -
  have "''API_KEY'' \<notin> set fixed_override_keys"
    by (simp add: fixed_override_keys_def)
  moreover have "fmlookup (fmap_of_list [(''API_KEY'', ''from-shell''), (''PORT'', ''1'')]) ''API_KEY''
                   = Some ''from-shell''"
    by (simp add: fmlookup_of_list)
  moreover have "show_nat 4000 = ''4000''"
    by (simp add: show_nat.simps)
  ultimately show ?thesis
    using child_env_precedence
            [where k = "''API_KEY''"
               and u = "fmap_of_list [(''API_KEY'', ''from-shell''), (''PORT'', ''1'')]"
               and p = "fmap_of_list [(''API_KEY'', ''from-parent''), (''PORT'', ''2'')]"
               and port = 4000 and ud = "''/data''" and h = "''/Users/u''"
               and v = "''from-shell''", THEN conjunct2]
    by simp
qed

section \<open>Properties of the file-preview route\<close>

lemma read_and_respond_reads:
  "snd (read_and_respond pf rp ml) = [(rp, js_min ml (Num 1000))]"
  by (simp add: read_and_respond_def Let_def)

lemma GET_missing_path:
  "\<not> truthy (path_param req) \<Longrightarrow> GET pf req = (ErrorResponse ''Missing path parameter'' 400, [])"
  by (auto simp: GET_def truthy_def Let_def split: option.splits)

lemma GET_root_base:
  "truthy (path_param req) \<Longrightarrow> truthy (baseDir_param req) \<Longrightarrow>
   files_isRootPath pf (resolvedBase pf req) \<Longrightarrow>
   GET pf req = (ErrorResponse ''Cannot use filesystem root as base directory'' 403, [])"
  by (auto simp: GET_def truthy_def Let_def split: option.splits)

lemma GET_outside_base:
  "truthy (path_param req) \<Longrightarrow> truthy (baseDir_param req) \<Longrightarrow>
   \<not> files_isRootPath pf (resolvedBase pf req) \<Longrightarrow>
   \<not> files_isPathSafe pf (resolvedBase pf req) (resolvedPath pf req) \<Longrightarrow>
   GET pf req = (ErrorResponse ''File is outside the project scope'' 403, [])"
  by (auto simp: GET_def truthy_def or_else_def Let_def split: option.splits)

lemma GET_outside_home:
  "truthy (path_param req) \<Longrightarrow> \<not> truthy (baseDir_param req) \<Longrightarrow>
   \<not> files_isPathSafe pf (os_homedir pf) (resolvedPath pf req) \<Longrightarrow>
   GET pf req = (ErrorResponse ''File is outside the allowed scope'' 403, [])"
  by (auto simp: GET_def truthy_def or_else_def Let_def split: option.splits)

lemma GET_passes:
  "truthy (path_param req) \<Longrightarrow> guard_passes pf req \<Longrightarrow>
   GET pf req =
     read_and_respond pf (resolvedPath pf req) (parseInt10 (or_else (maxLines_param req) ''200''))"
  by (auto simp: GET_def truthy_def or_else_def Let_def split: option.splits if_splits)

lemma GET_reads_cases:
  "snd (GET pf req) = [] \<or>
   (truthy (path_param req) \<and> guard_passes pf req \<and>
    snd (GET pf req) =
      [(resolvedPath pf req,
        js_min (parseInt10 (or_else (maxLines_param req) ''200'')) (Num 1000))])"
  by (auto simp: GET_def truthy_def or_else_def Let_def read_and_respond_reads
           split: option.splits if_splits)

lemma GET_rejected_no_read:
  "\<not> guard_passes pf req \<Longrightarrow> snd (GET pf req) = []"
  using GET_reads_cases [of pf req] by auto

text \<open>
  Claim C1. The sandbox decision comes before any read. With a path given: an explicit
  base directory that resolves to a root is answered with status 403 and no call of
  \<open>readFilePreview\<close>; an explicit base that is not a root but does not contain the resolved
  path likewise; with no base directory, a resolved path outside the home directory
  likewise. Whenever the check of the branch taken fails there is no read, and a read
  happens only for a request with a path whose check passes, once, on the resolved path.
\<close>

theorem preview_guard_precedes_read:
  "(truthy (path_param req) \<and> truthy (baseDir_param req)
      \<and> files_isRootPath pf (resolvedBase pf req) \<longrightarrow>
      GET pf req = (ErrorResponse ''Cannot use filesystem root as base directory'' 403, []))
   \<and> (truthy (path_param req) \<and> truthy (baseDir_param req)
      \<and> \<not> files_isRootPath pf (resolvedBase pf req)
      \<and> \<not> files_isPathSafe pf (resolvedBase pf req) (resolvedPath pf req) \<longrightarrow>
      GET pf req = (ErrorResponse ''File is outside the project scope'' 403, []))
   \<and> (truthy (path_param req) \<and> \<not> truthy (baseDir_param req)
      \<and> \<not> files_isPathSafe pf (os_homedir pf) (resolvedPath pf req) \<longrightarrow>
      GET pf req = (ErrorResponse ''File is outside the allowed scope'' 403, []))
   \<and> (\<not> guard_passes pf req \<longrightarrow> snd (GET pf req) = [])
   \<and> (snd (GET pf req) \<noteq> [] \<longrightarrow>
        truthy (path_param req) \<and> guard_passes pf req
        \<and> (\<exists>limit. snd (GET pf req) = [(resolvedPath pf req, limit)]))"
proof (intro conjI impI)
  assume "snd (GET pf req) \<noteq> []"
  with GET_reads_cases [of pf req]
  show "truthy (path_param req)" and "guard_passes pf req"
    and "\<exists>limit. snd (GET pf req) = [(resolvedPath pf req, limit)]"
    by auto
qed (simp_all add: GET_root_base GET_outside_base GET_outside_home GET_rejected_no_read)

lemmas example_eval = example_platform_def isRootPath_def isPathSafe_def segments_def truthy_def
  or_else_def

theorem preview_guard_precedes_read_witness:
  "GET example_platform \<lparr>path_param = Some ''/etc/passwd'', maxLines_param = None,
                       baseDir_param = Some ''/''\<rparr>
     = (ErrorResponse ''Cannot use filesystem root as base directory'' 403, [])
   \<and> GET example_platform \<lparr>path_param = Some ''/home/alice-2/project'', maxLines_param = None,
                         baseDir_param = Some ''/home/alice''\<rparr>
     = (ErrorResponse ''File is outside the project scope'' 403, [])
   \<and> GET example_platform \<lparr>path_param = Some ''/etc/passwd'', maxLines_param = None,
                         baseDir_param = None\<rparr>
     = (ErrorResponse ''File is outside the allowed scope'' 403, [])
   \<and> snd (GET example_platform \<lparr>path_param = Some ''/home/alice/project/a.txt'',
                               maxLines_param = None, baseDir_param = Some ''/home/alice''\<rparr>)
     = [(''/home/alice/project/a.txt'', Num 200)]
   \<and> guard_passes example_platform \<lparr>path_param = Some ''/home/alice/project/a.txt'',
                       maxLines_param = None, baseDir_param = Some ''/home/alice''\<rparr>"
proof -
  have r: "snd (GET example_platform \<lparr>path_param = Some ''/home/alice/project/a.txt'',
                               maxLines_param = None, baseDir_param = Some ''/home/alice''\<rparr>)
     = [(''/home/alice/project/a.txt'', Num 200)]"
    by (simp add: GET_def read_and_respond_def example_eval parseInt10_def ws_eval
          is_digit_def digits_value_def Let_def)
  show ?thesis
    using preview_guard_precedes_read [of "\<lparr>path_param = Some ''/etc/passwd'',
              maxLines_param = None, baseDir_param = Some ''/''\<rparr>" example_platform]
          preview_guard_precedes_read [of "\<lparr>path_param = Some ''/home/alice-2/project'',
              maxLines_param = None, baseDir_param = Some ''/home/alice''\<rparr>" example_platform]
          preview_guard_precedes_read [of "\<lparr>path_param = Some ''/etc/passwd'',
              maxLines_param = None, baseDir_param = None\<rparr>" example_platform]
          preview_guard_precedes_read [of "\<lparr>path_param = Some ''/home/alice/project/a.txt'',
              maxLines_param = None, baseDir_param = Some ''/home/alice''\<rparr>" example_platform]
          r
    by (simp add: example_eval)
qed







section \<open>Properties of PathSandboxGuard\<close>

lemma normalized_abs_segments_inj:
  "normalized_abs B \<Longrightarrow> normalized_abs C \<Longrightarrow> segments B = segments C \<Longrightarrow> B = C"
  by (metis normalized_abs_def)

text \<open>
  Claim C2. For absolute, normalized paths, \<open>isPathSafe base candidate\<close> holds iff the
  candidate equals the base or its segment sequence properly extends the base's, segment by
  segment. A sibling that shares only a prefix of characters with the base is unsafe: with
  base \<open>/home/alice\<close>, the candidate \<open>/home/alice/project\<close> is safe and
  \<open>/home/alice-2/project\<close> is not.
\<close>

theorem isPathSafe_segmentwise:
  "(normalized_abs B \<and> normalized_abs C \<longrightarrow>
      isPathSafe B C = (C = B \<or> strict_prefix (segments B) (segments C)))
   \<and> isPathSafe ''/home/alice'' ''/home/alice/project''
   \<and> \<not> isPathSafe ''/home/alice'' ''/home/alice-2/project''"
proof (intro conjI impI)
  assume n: "normalized_abs B \<and> normalized_abs C"
  show "isPathSafe B C = (C = B \<or> strict_prefix (segments B) (segments C))"
  proof
    assume "isPathSafe B C"
    then have "segments B = segments C \<or> strict_prefix (segments B) (segments C)"
      by (auto simp: isPathSafe_def strict_prefix_def)
    with n show "C = B \<or> strict_prefix (segments B) (segments C)"
      using normalized_abs_segments_inj [of B C] by auto
  next
    assume "C = B \<or> strict_prefix (segments B) (segments C)"
    then show "isPathSafe B C"
      by (auto simp: isPathSafe_def strict_prefix_def)
  qed
next
  show "isPathSafe ''/home/alice'' ''/home/alice/project''"
    by (simp add: isPathSafe_def segments_def)
  show "\<not> isPathSafe ''/home/alice'' ''/home/alice-2/project''"
    by (simp add: isPathSafe_def segments_def)
qed

theorem isPathSafe_segmentwise_witness:
  "normalized_abs ''/home/alice'' \<and> normalized_abs ''/home/alice-2/project''
   \<and> \<not> isPathSafe ''/home/alice'' ''/home/alice-2/project''
   \<and> ''/home/alice-2/project'' \<noteq> ''/home/alice''
   \<and> \<not> strict_prefix (segments ''/home/alice'') (segments ''/home/alice-2/project'')
   \<and> prefix ''/home/alice'' ''/home/alice-2/project''"
proof -
  have n: "normalized_abs ''/home/alice'' \<and> normalized_abs ''/home/alice-2/project''"
    by (simp add: normalized_abs_def segments_def)
  show ?thesis
    using n isPathSafe_segmentwise [of "''/home/alice''" "''/home/alice-2/project''"]
    by auto
qed


section \<open>Properties of the health-check poller\<close>

lemma probe_success_iff: "fst (probe r) = Inr () \<longleftrightarrow> (\<exists>d<1000. r = Responds d 200)"
  by (cases r) (auto simp: probe_def)

lemma probe_elapsed_le: "snd (probe r) \<le> 1000"
  by (cases r) (auto simp: probe_def)

lemma loop_deadline:
  "\<not> now - start < timeout \<Longrightarrow>
   waitForServer_loop ticks start timeout now s =
     (Inl (Error (timeout_message timeout (serverErrors s))), now, s)"
  by (simp add: waitForServer_loop.simps)

lemma loop_exited:
  "now - start < timeout \<Longrightarrow> exited_code s = Some code \<Longrightarrow>
   waitForServer_loop ticks start timeout now s =
     (Inl (Error (exited_message code (serverErrors s))), now, s)"
  by (simp add: waitForServer_loop.simps)

lemma loop_success:
  "now - start < timeout \<Longrightarrow> exited_code s = None \<Longrightarrow>
   fst (probe (reply (next_tick ticks))) = Inr () \<Longrightarrow>
   waitForServer_loop ticks start timeout now s =
     (Inr (), now + snd (probe (reply (next_tick ticks))),
      deliver_all (arrivals (next_tick ticks)) s)"
  by (subst waitForServer_loop.simps) (auto split: prod.splits sum.splits)

lemma loop_retry:
  "now - start < timeout \<Longrightarrow> exited_code s = None \<Longrightarrow>
   fst (probe (reply (next_tick ticks))) \<noteq> Inr () \<Longrightarrow>
   waitForServer_loop ticks start timeout now s =
     waitForServer_loop (tl ticks) start timeout
       (now + snd (probe (reply (next_tick ticks))) + 200)
       (deliver_all (arrivals (next_tick ticks)) s)"
  by (subst waitForServer_loop.simps) (auto split: prod.splits sum.splits)

lemma exited_code_deliver:
  "exited_code s = None \<Longrightarrow> exited_code (deliver ev s) = None"
  by (cases ev) (auto simp: deliver_def exited_code_def on_stdout_def on_stderr_def on_exit_def
                      Let_def split: option.splits)

lemma exited_code_deliver_all:
  "exited_code s = None \<Longrightarrow> exited_code (deliver_all evs s) = None"
  unfolding deliver_all_def
  by (induction evs arbitrary: s) (simp_all add: exited_code_deliver)

lemma loop_first_200:
  "exited_code s = None \<Longrightarrow>
   list_all (\<lambda>t. fst (probe (reply t)) \<noteq> Inr ()) fails \<Longrightarrow>
   fst (probe (reply t)) = Inr () \<Longrightarrow>
   now + sum_list (map (\<lambda>t. snd (probe (reply t)) + 200) fails) - start < timeout \<Longrightarrow>
   waitForServer_loop (fails @ t # rest) start timeout now s =
     (Inr (),
      now + sum_list (map (\<lambda>t. snd (probe (reply t)) + 200) fails) + snd (probe (reply t)),
      deliver_all (concat (map arrivals fails) @ arrivals t) s)"
proof (induction fails arbitrary: now s)
  case Nil
  then show ?case by (simp add: loop_success next_tick_def)
next
  case (Cons f fails)
  have head: "now - start < timeout" using Cons.prems(4) by simp
  have step: "waitForServer_loop ((f # fails) @ t # rest) start timeout now s =
     waitForServer_loop (fails @ t # rest) start timeout (now + snd (probe (reply f)) + 200)
       (deliver_all (arrivals f) s)"
    using head Cons.prems(1,2) by (simp add: loop_retry next_tick_def)
  have "waitForServer_loop (fails @ t # rest) start timeout (now + snd (probe (reply f)) + 200)
       (deliver_all (arrivals f) s) =
     (Inr (),
      now + snd (probe (reply f)) + 200
        + sum_list (map (\<lambda>t. snd (probe (reply t)) + 200) fails) + snd (probe (reply t)),
      deliver_all (concat (map arrivals fails) @ arrivals t) (deliver_all (arrivals f) s))"
    using Cons.prems by (intro Cons.IH) (simp_all add: exited_code_deliver_all add.assoc add.commute add.left_commute)
  with step show ?case
    by (simp add: deliver_all_def add.assoc)
qed


lemma example_started_simps:
  "serverProcess example_started = Some 0"
  "serverErrors example_started = []"
  "length (children example_started) = 1"
  "exitCode (children example_started ! 0) = None"
  "signalCode (children example_started ! 0) = None"
  "clock example_started = 0"
  by (simp_all add: example_started_def startServer_def initial_state_def Let_def)

lemma example_started_exited_code: "exited_code example_started = None"
  by (simp add: exited_code_def example_started_simps)

text \<open>
  Claim C9. The poller returns success at the first probe that is answered with status
  200 within the probe's own timeout, whatever the probes before it did: when the handle
  does not show an exit, the earlier probes all fail and the deadline has not passed when
  the successful probe is issued, \<open>waitForServer\<close> returns at the moment of that answer.
  A probe succeeds only on status 200: every other status and every connection error is a
  failure of that probe. A probe never lasts more than 1000 milliseconds: when nothing has
  arrived by then it fails with \<open>timeout\<close>; the overall deadline of \<open>waitForServer\<close> is
  30000 milliseconds.
\<close>

theorem poller_succeeds_on_first_200:
  "(exited_code s = None
     \<and> list_all (\<lambda>t. fst (probe (reply t)) \<noteq> Inr ()) fails
     \<and> fst (probe (reply t)) = Inr ()
     \<and> now + sum_list (map (\<lambda>t. snd (probe (reply t)) + 200) fails) - start < timeout \<longrightarrow>
     fst (waitForServer_loop (fails @ t # rest) start timeout now s) = Inr ()
     \<and> fst (snd (waitForServer_loop (fails @ t # rest) start timeout now s))
         = now + sum_list (map (\<lambda>t. snd (probe (reply t)) + 200) fails) + snd (probe (reply t)))
   \<and> (fst (probe r) = Inr () \<longleftrightarrow> (\<exists>d<1000. r = Responds d 200))
   \<and> (st \<noteq> 200 \<longrightarrow> fst (probe (Responds d st)) \<noteq> Inr ())
   \<and> fst (probe (Fails d err)) \<noteq> Inr ()
   \<and> snd (probe r) \<le> 1000
   \<and> (1000 \<le> d \<longrightarrow> probe (Responds d st) = (Inl (Error ''timeout''), 1000))
   \<and> probe Silent = (Inl (Error ''timeout''), 1000)
   \<and> fst (waitForServer ticks s) = fst (waitForServer_loop ticks (clock s) 30000 (clock s) s)"
proof -
  have "fst (waitForServer ticks s) = fst (waitForServer_loop ticks (clock s) 30000 (clock s) s)"
    by (simp add: waitForServer_def split: prod.splits)
  moreover have "fst (probe (Fails d err)) \<noteq> Inr ()"
    by (simp add: probe_def)
  moreover have "st \<noteq> 200 \<longrightarrow> fst (probe (Responds d st)) \<noteq> Inr ()"
    by (simp add: probe_def)
  moreover have "1000 \<le> d \<longrightarrow> probe (Responds d st) = (Inl (Error ''timeout''), 1000)"
    by (simp add: probe_def)
  moreover have "probe Silent = (Inl (Error ''timeout''), 1000)"
    by (simp add: probe_def)
  ultimately show ?thesis
    using probe_success_iff [of r] probe_elapsed_le [of r]
    by (simp add: loop_first_200)
qed

theorem poller_succeeds_on_first_200_witness:
  "fst (waitForServer_loop
          [\<lparr>arrivals = [], reply = Fails 2 (Error ''connect ECONNREFUSED'')\<rparr>,
           \<lparr>arrivals = [], reply = Responds 5 503\<rparr>,
           \<lparr>arrivals = [], reply = Silent\<rparr>,
           \<lparr>arrivals = [], reply = Responds 20 200\<rparr>] 0 30000 0 example_started) = Inr ()
   \<and> fst (snd (waitForServer_loop
          [\<lparr>arrivals = [], reply = Fails 2 (Error ''connect ECONNREFUSED'')\<rparr>,
           \<lparr>arrivals = [], reply = Responds 5 503\<rparr>,
           \<lparr>arrivals = [], reply = Silent\<rparr>,
           \<lparr>arrivals = [], reply = Responds 20 200\<rparr>] 0 30000 0 example_started)) = 1627"
  using example_started_exited_code
    poller_succeeds_on_first_200
      [of example_started
          "[\<lparr>arrivals = [], reply = Fails 2 (Error ''connect ECONNREFUSED'')\<rparr>,
            \<lparr>arrivals = [], reply = Responds 5 503\<rparr>,
            \<lparr>arrivals = [], reply = Silent\<rparr>]"
          "\<lparr>arrivals = [], reply = Responds 20 200\<rparr>" 0 0 30000 "[]" Silent 503 5
          "Error ''connect ECONNREFUSED''"]
  by (simp add: probe_def)


section \<open>Properties of the diagnostic buffer\<close>

lemma serverErrors_deliver_prefix: "prefix (serverErrors s) (serverErrors (deliver ev s))"
  by (cases ev) (auto simp: deliver_def on_stdout_def on_stderr_def on_exit_def Let_def)

lemma serverErrors_deliver_all_prefix: "prefix (serverErrors s) (serverErrors (deliver_all evs s))"
  unfolding deliver_all_def
proof (induction evs arbitrary: s)
  case Nil
  show ?case by simp
next
  case (Cons ev evs)
  have "prefix (serverErrors s) (serverErrors (deliver ev s))"
    by (rule serverErrors_deliver_prefix)
  also have "prefix (serverErrors (deliver ev s)) (serverErrors (fold deliver evs (deliver ev s)))"
    by (rule Cons.IH)
  finally show ?case by simp
qed

lemma slice_from_last10: "slice_from errs (- 10) = drop (length errs - 10) errs"
  by (simp add: slice_from_def rel_index_def max_def nat_diff_distrib')

lemma children_length_deliver: "length (children (deliver ev s)) = length (children s)"
  by (cases ev) (auto simp: deliver_def on_stdout_def on_stderr_def on_exit_def Let_def)

lemma children_length_deliver_all: "length (children (deliver_all evs s)) = length (children s)"
  unfolding deliver_all_def
  by (induction evs arbitrary: s) (simp_all add: children_length_deliver)

lemma loop_frame:
  "(case waitForServer_loop ticks start timeout now s of
      (r, now', s') \<Rightarrow>
        prefix (serverErrors s) (serverErrors s') \<and> length (children s') = length (children s))"
proof (induction ticks start timeout now s rule: waitForServer_loop.induct)
  case (1 ticks start timeout now s)
  show ?case
  proof (cases "now - start < timeout")
    case False
    then show ?thesis by (simp add: loop_deadline)
  next
    case True
    show ?thesis
    proof (cases "exited_code s")
      case (Some code)
      with True show ?thesis by (simp add: loop_exited)
    next
      case None
      show ?thesis
      proof (cases "fst (probe (reply (next_tick ticks))) = Inr ()")
        case ok: True
        with True None show ?thesis
          by (simp add: loop_success serverErrors_deliver_all_prefix children_length_deliver_all)
      next
        case failed: False
        then obtain e d where p: "probe (reply (next_tick ticks)) = (Inl e, d)"
          by (cases "probe (reply (next_tick ticks))"; cases "fst (probe (reply (next_tick ticks)))")
             auto
        have pre: "prefix (serverErrors s)
                     (serverErrors (deliver_all (arrivals (next_tick ticks)) s))"
          by (rule serverErrors_deliver_all_prefix)
        from "1.IH" [OF True None p [symmetric] refl] True None failed p pre
        show ?thesis
          by (auto simp: loop_retry children_length_deliver_all split: prod.splits
                   intro: prefix_order.trans)
      qed
    qed
  qed
qed

lemma waitForServer_frame:
  "prefix (serverErrors s) (serverErrors (snd (waitForServer ticks s)))
   \<and> length (children (snd (waitForServer ticks s))) = length (children s)"
  using loop_frame [where ticks = ticks and start = "clock s" and timeout = 30000
                      and now = "clock s" and s = s]
  by (auto simp: waitForServer_def split: prod.splits)

lemma kill_child_frame:
  "serverErrors (kill_child c s) = serverErrors s
   \<and> length (children (kill_child c s)) = length (children s)"
  by (simp add: kill_child_def)

lemma stop_server_frame:
  "serverErrors (stop_server s) = serverErrors s
   \<and> length (children (stop_server s)) = length (children s)"
  by (simp add: stop_server_def kill_child_frame split: option.splits)

lemma app_quit_frame:
  "serverErrors (app_quit s) = serverErrors s
   \<and> length (children (app_quit s)) = length (children s)"
  by (simp add: app_quit_def on_before_quit_def stop_server_frame)

lemma on_window_all_closed_frame:
  "serverErrors (on_window_all_closed ctx s) = serverErrors s
   \<and> length (children (on_window_all_closed ctx s)) = length (children s)"
  by (simp add: on_window_all_closed_def app_quit_frame stop_server_frame Let_def)

lemma createWindow_frame:
  "serverErrors (createWindow port s) = serverErrors s
   \<and> length (children (createWindow port s)) = length (children s)"
  by (simp add: createWindow_def)

lemma startServer_frame:
  "serverErrors (snd (startServer ctx port s)) = []
   \<and> length (children (snd (startServer ctx port s))) = Suc (length (children s))"
  by (simp add: startServer_def Let_def)

lemma ready_body_frame:
  "prefix (serverErrors s) (serverErrors (snd (ready_body ctx granted ticks s)))
     \<and> length (children (snd (ready_body ctx granted ticks s))) = length (children s)
   \<or> length (children (snd (ready_body ctx granted ticks s))) = Suc (length (children s))"
proof (cases "isDev ctx")
  case True
  then show ?thesis by (simp add: ready_body_def createWindow_frame)
next
  case False
  show ?thesis
  proof (cases granted)
    case (Inl err)
    with False show ?thesis by (simp add: ready_body_def)
  next
    case (Inr port)
    define s1 where "s1 = s\<lparr>console := console s
               @ [ConsoleLog (''Starting server on port '' @ show_nat port @ ''...'')]\<rparr>"
    define s3 where "s3 = (snd (startServer ctx port s1))
                            \<lparr>serverProcess := Some (fst (startServer ctx port s1))\<rparr>"
    obtain r s4 where w: "waitForServer ticks s3 = (r, s4)"
      by (cases "waitForServer ticks s3")
    have l1: "length (children s1) = length (children s)"
      by (simp add: s1_def)
    have l3: "length (children s3) = Suc (length (children s))"
      using startServer_frame [of ctx port s1] l1 by (simp add: s3_def)
    have l4: "length (children s4) = Suc (length (children s))"
      using waitForServer_frame [where s = s3 and ticks = ticks] l3 w by simp
    have rb: "ready_body ctx granted ticks s =
                (case r of
                   Inl err \<Rightarrow> (Inl err, s4)
                 | Inr u \<Rightarrow> (Inr (), createWindow port
                                  (s4\<lparr>console := console s4 @ [ConsoleLog ''Server is ready''],
                                      serverPort := Some port\<rparr>)))"
    proof -
      have "ready_body ctx granted ticks s =
              (case waitForServer ticks s3 of
                 (Inl err, s4) \<Rightarrow> (Inl err, s4)
               | (Inr u, s4) \<Rightarrow>
                   (Inr (), createWindow port
                              (s4\<lparr>console := console s4 @ [ConsoleLog ''Server is ready''],
                                  serverPort := Some port\<rparr>)))"
        using False Inr
        by (simp add: ready_body_def s1_def s3_def Let_def case_prod_beta)
      then show ?thesis
        by (simp add: w split: sum.splits)
    qed
    have "length (children (snd (ready_body ctx granted ticks s))) = Suc (length (children s))"
      unfolding rb using l4 by (cases r) (simp_all add: createWindow_def)
    then show ?thesis by simp
  qed
qed


lemma on_ready_frame:
  "prefix (serverErrors s) (serverErrors (on_ready ctx granted ticks s))
     \<and> length (children (on_ready ctx granted ticks s)) = length (children s)
   \<or> length (children (on_ready ctx granted ticks s)) = Suc (length (children s))"
proof (cases "loadUserShellEnv (execFileSync ctx) (process_env ctx)")
  case (Inl err)
  then show ?thesis by (simp add: on_ready_def)
next
  case (Inr el)
  obtain e logs where el: "el = (e, logs)" by (cases el)
  define s0 where "s0 = s\<lparr>userShellEnv := e, console := console s @ logs\<rparr>"
  obtain r s' where rb: "ready_body ctx granted ticks s0 = (r, s')"
    by (cases "ready_body ctx granted ticks s0")
  have s0: "serverErrors s0 = serverErrors s" "length (children s0) = length (children s)"
    by (simp_all add: s0_def)
  have fr: "prefix (serverErrors s) (serverErrors s') \<and> length (children s') = length (children s)
            \<or> length (children s') = Suc (length (children s))"
    using ready_body_frame [of s0 ctx granted ticks] rb s0 by simp
  have res: "on_ready ctx granted ticks s =
     (case r of
        Inr u \<Rightarrow> s'
      | Inl err \<Rightarrow>
          app_quit
            (s'\<lparr>console := console s' @ [ConsoleErrorWith ''Failed to start:'' err],
                dialogs := dialogs s'
                  @ [(''CodePilot - Failed to Start'',
                      ''The internal server could not start.\<newline>\<newline>'' @ thrown_text err
                      @ ''\<newline>\<newline>Please try restarting the application.'')]\<rparr>))"
    using Inr el rb by (simp add: on_ready_def s0_def split: sum.splits)
  show ?thesis
    unfolding res using fr by (cases r) (simp_all add: app_quit_frame)
qed

lemma activate_restart_frame:
  "prefix (serverErrors s) (serverErrors (snd (activate_restart ctx granted ticks s)))
     \<and> length (children (snd (activate_restart ctx granted ticks s))) = length (children s)
   \<or> length (children (snd (activate_restart ctx granted ticks s))) = Suc (length (children s))"
proof (cases "\<not> isDev ctx \<and> serverProcess s = None")
  case False
  then show ?thesis by (auto simp: activate_restart_def)
next
  case True
  show ?thesis
  proof (cases granted)
    case (Inl err)
    with True show ?thesis by (simp add: activate_restart_def)
  next
    case (Inr port)
    define s2 where "s2 = (snd (startServer ctx port s))
                            \<lparr>serverProcess := Some (fst (startServer ctx port s))\<rparr>"
    obtain r s3 where w: "waitForServer ticks s2 = (r, s3)"
      by (cases "waitForServer ticks s2")
    have l2: "length (children s2) = Suc (length (children s))"
      using startServer_frame [of ctx port s] by (simp add: s2_def)
    have l3: "length (children s3) = Suc (length (children s))"
      using waitForServer_frame [where s = s2 and ticks = ticks] l2 w by simp
    have "activate_restart ctx granted ticks s =
            (case waitForServer ticks s2 of
               (Inl err, s3) \<Rightarrow> (Inl err, s3)
             | (Inr u, s3) \<Rightarrow> (Inr (), s3\<lparr>serverPort := Some port\<rparr>))"
      using True Inr by (simp add: activate_restart_def s2_def Let_def case_prod_beta)
    then have "length (children (snd (activate_restart ctx granted ticks s)))
                 = Suc (length (children s))"
      using l3 by (cases r) (simp_all add: w)
    then show ?thesis by simp
  qed
qed

lemma on_activate_frame:
  "prefix (serverErrors s) (serverErrors (on_activate ctx granted ticks s))
     \<and> length (children (on_activate ctx granted ticks s)) = length (children s)
   \<or> length (children (on_activate ctx granted ticks s)) = Suc (length (children s))"
proof (cases "length (windows s) = 0")
  case False
  then show ?thesis by (simp add: on_activate_def)
next
  case True
  obtain r s' where ar: "activate_restart ctx granted ticks s = (r, s')"
    by (cases "activate_restart ctx granted ticks s")
  have fr: "prefix (serverErrors s) (serverErrors s') \<and> length (children s') = length (children s)
            \<or> length (children s') = Suc (length (children s))"
    using activate_restart_frame [of s ctx granted ticks] ar by simp
  have "serverErrors (on_activate ctx granted ticks s) = serverErrors s'
        \<and> length (children (on_activate ctx granted ticks s)) = length (children s')"
    using True ar
    by (cases r) (simp_all add: on_activate_def activate_body_def createWindow_def)
  with fr show ?thesis by simp
qed

lemma handle_frame:
  "prefix (serverErrors s) (serverErrors (handle ctx ev s))
     \<and> length (children (handle ctx ev s)) = length (children s)
   \<or> length (children (handle ctx ev s)) = Suc (length (children s))"
proof (cases "quit_called s")
  case True
  then show ?thesis by (simp add: handle_def)
next
  case False
  show ?thesis
  proof (cases ev)
    case (WhenReady granted ticks)
    with False on_ready_frame [of s ctx granted ticks] show ?thesis
      by (simp add: handle_def)
  next
    case WindowAllClosed
    with False show ?thesis
      by (simp add: handle_def on_window_all_closed_frame)
  next
    case (Activate granted ticks)
    with False on_activate_frame [of s ctx granted ticks] show ?thesis
      by (simp add: handle_def)
  next
    case BeforeQuit
    with False show ?thesis
      by (simp add: handle_def app_quit_frame)
  next
    case (FromChild cev)
    with False show ?thesis
      by (simp add: handle_def serverErrors_deliver_prefix children_length_deliver)
  qed
qed


lemma eleven_chunks_buffer:
  "serverErrors (deliver_all example_eleven_chunks example_started) = [''line 1'', ''line 2'', ''line 3'', ''line 4'', ''line 5'', ''line 6'', ''line 7'', ''line 8'', ''line 9'', ''line 10'', ''line 11'']"
  by (simp add: example_eleven_chunks_def deliver_all_def deliver_def on_stdout_def on_stderr_def
        trim_def ws_eval example_started_simps Let_def)

text \<open>
  Against claim C7 as stated. The buffer is not bounded: after eleven chunks of output it
  holds all eleven, the oldest included. And an entry of the buffer is a chunk, not a line:
  a single chunk of twelve lines is one entry, and the timeout message that surfaces it
  holds twelve lines of the child's output.
\<close>

theorem diagnostic_buffer_unbounded_counterexample:
  "serverErrors (deliver_all example_eleven_chunks example_started) = [''line 1'', ''line 2'', ''line 3'', ''line 4'', ''line 5'', ''line 6'', ''line 7'', ''line 8'', ''line 9'', ''line 10'', ''line 11'']
   \<and> timeout_message 30000
         (serverErrors (deliver (ChildStdout 0 ''l1\<newline>l2\<newline>l3\<newline>l4\<newline>l5\<newline>l6\<newline>l7\<newline>l8\<newline>l9\<newline>l10\<newline>l11\<newline>l12'') example_started))
       = ''Server startup timeout after 30s.\<newline>\<newline>Server output:\<newline>l1\<newline>l2\<newline>l3\<newline>l4\<newline>l5\<newline>l6\<newline>l7\<newline>l8\<newline>l9\<newline>l10\<newline>l11\<newline>l12''"
proof -
  have "serverErrors (deliver (ChildStdout 0 ''l1\<newline>l2\<newline>l3\<newline>l4\<newline>l5\<newline>l6\<newline>l7\<newline>l8\<newline>l9\<newline>l10\<newline>l11\<newline>l12'') example_started) = [''l1\<newline>l2\<newline>l3\<newline>l4\<newline>l5\<newline>l6\<newline>l7\<newline>l8\<newline>l9\<newline>l10\<newline>l11\<newline>l12'']"
    by (simp add: deliver_def on_stdout_def trim_def ws_eval example_started_simps Let_def)
  moreover have "show_seconds 30000 = ''30''"
    by (simp add: show_seconds_def show_nat.simps)
  ultimately show ?thesis
    by (simp add: eleven_chunks_buffer timeout_message_def slice_from_def rel_index_def)
qed

text \<open>
  Claim C7, amended. Every chunk of the child's standard output and standard error is
  appended to the buffer, trimmed. Nothing but \<open>startServer\<close> removes an entry: the buffer
  before a sequence of child events, before \<open>waitForServer\<close>, before \<open>window-all-closed\<close>,
  \<open>app.quit()\<close> or \<open>createWindow\<close> is a prefix of (or equal to) the buffer after it, and
  every event of the application either keeps all entries or starts a server, which
  empties the buffer. The message of the startup timeout surfaces no more than the ten
  most recent entries of the buffer, and it is what the loop throws once the deadline has
  passed.
\<close>

theorem diagnostic_buffer_and_timeout_report:
  "(c < length (children s) \<longrightarrow>
      serverErrors (deliver (ChildStdout c chunk) s) = serverErrors s @ [trim chunk]
      \<and> serverErrors (deliver (ChildStderr c chunk) s) = serverErrors s @ [trim chunk])
   \<and> prefix (serverErrors s) (serverErrors (deliver_all evs s))
   \<and> prefix (serverErrors s) (serverErrors (snd (waitForServer ticks s)))
   \<and> serverErrors (on_window_all_closed ctx s) = serverErrors s
   \<and> serverErrors (app_quit s) = serverErrors s
   \<and> serverErrors (createWindow port s) = serverErrors s
   \<and> (prefix (serverErrors s) (serverErrors (handle ctx ev s))
        \<or> length (children (handle ctx ev s)) = Suc (length (children s)))
   \<and> serverErrors (snd (startServer ctx port s)) = []
   \<and> length (children (snd (startServer ctx port s))) = Suc (length (children s))
   \<and> timeout_message timeout errs =
        ''Server startup timeout after '' @ show_seconds timeout @ ''s.\<newline>\<newline>''
        @ (if errs = [] then ''No server output captured.''
           else ''Server output:\<newline>'' @ join ''\<newline>'' (drop (length errs - 10) errs))
   \<and> length (drop (length errs - 10) errs) = min 10 (length errs)
   \<and> (\<not> now - start < timeout \<longrightarrow>
        waitForServer_loop ticks' start timeout now s =
          (Inl (Error (timeout_message timeout (serverErrors s))), now, s))"
proof -
  have "c < length (children s) \<longrightarrow>
      serverErrors (deliver (ChildStdout c chunk) s) = serverErrors s @ [trim chunk]
      \<and> serverErrors (deliver (ChildStderr c chunk) s) = serverErrors s @ [trim chunk]"
    by (simp add: deliver_def on_stdout_def on_stderr_def Let_def)
  moreover have "timeout_message timeout errs =
        ''Server startup timeout after '' @ show_seconds timeout @ ''s.\<newline>\<newline>''
        @ (if errs = [] then ''No server output captured.''
           else ''Server output:\<newline>'' @ join ''\<newline>'' (drop (length errs - 10) errs))"
    by (simp add: timeout_message_def slice_from_last10)
  moreover have "length (drop (length errs - 10) errs) = min 10 (length errs)"
    by simp
  moreover have "prefix (serverErrors s) (serverErrors (handle ctx ev s))
        \<or> length (children (handle ctx ev s)) = Suc (length (children s))"
    using handle_frame [of s ctx ev] by blast
  moreover have "prefix (serverErrors s) (serverErrors (snd (waitForServer ticks s)))"
    using waitForServer_frame [where s = s and ticks = ticks] by simp
  ultimately show ?thesis
    by (simp add: serverErrors_deliver_all_prefix loop_deadline on_window_all_closed_frame
          app_quit_frame createWindow_frame startServer_frame)
qed

theorem diagnostic_buffer_and_timeout_report_witness:
  "fst (waitForServer [\<lparr>arrivals = example_eleven_chunks, reply = Silent\<rparr>] example_started)
     = Inl (Error ''Server startup timeout after 30s.\<newline>\<newline>Server output:\<newline>line 2\<newline>line 3\<newline>line 4\<newline>line 5\<newline>line 6\<newline>line 7\<newline>line 8\<newline>line 9\<newline>line 10\<newline>line 11'')
   \<and> serverErrors (deliver (ChildStdout 0 ''  line 12 \<newline>'')
                      (deliver_all example_eleven_chunks example_started))
     = [''line 1'', ''line 2'', ''line 3'', ''line 4'', ''line 5'', ''line 6'', ''line 7'', ''line 8'', ''line 9'', ''line 10'', ''line 11'', ''line 12'']"
proof -
  define s1 where "s1 = deliver_all example_eleven_chunks example_started"
  have errs: "serverErrors s1 = [''line 1'', ''line 2'', ''line 3'', ''line 4'', ''line 5'', ''line 6'', ''line 7'', ''line 8'', ''line 9'', ''line 10'', ''line 11'']"
    by (simp add: s1_def eleven_chunks_buffer)
  have len: "length (children s1) = 1"
    by (simp add: s1_def children_length_deliver_all example_started_simps)
  have ex: "exited_code s1 = None"
    unfolding s1_def by (rule exited_code_deliver_all) (rule example_started_exited_code)
  have first: "waitForServer_loop [\<lparr>arrivals = example_eleven_chunks, reply = Silent\<rparr>]
                 0 30000 0 example_started
               = waitForServer_loop [] 0 30000 1200 s1"
    by (simp add: loop_retry example_started_exited_code next_tick_def probe_def s1_def)
  have silent: "now < 30000 \<Longrightarrow>
      waitForServer_loop [] 0 30000 now s1 = waitForServer_loop [] 0 30000 (now + 1200) s1" for now
    using ex by (simp add: loop_retry next_tick_def probe_def deliver_all_def add.commute)
  have steps: "waitForServer_loop [] 0 30000 1200 s1 = waitForServer_loop [] 0 30000 30000 s1"
    by (simp add: silent)
  have secs: "show_seconds 30000 = ''30''"
    by (simp add: show_seconds_def show_nat.simps)
  have trimmed: "trim ''  line 12 \<newline>'' = ''line 12''"
    by (simp add: trim_def ws_eval)
  note inst = diagnostic_buffer_and_timeout_report
               [where c = 0 and s = s1 and chunk = "''  line 12 \<newline>''" and now = 30000
                  and start = 0 and timeout = 30000 and errs = "serverErrors s1"
                  and ticks' = "[]"]
  have last: "waitForServer_loop [] 0 30000 30000 s1
                = (Inl (Error (timeout_message 30000 (serverErrors s1))), 30000, s1)"
    using inst by simp
  have msg: "timeout_message 30000 [''line 1'', ''line 2'', ''line 3'', ''line 4'', ''line 5'', ''line 6'', ''line 7'', ''line 8'', ''line 9'', ''line 10'', ''line 11'']
               = ''Server startup timeout after 30s.\<newline>\<newline>Server output:\<newline>line 2\<newline>line 3\<newline>line 4\<newline>line 5\<newline>line 6\<newline>line 7\<newline>line 8\<newline>line 9\<newline>line 10\<newline>line 11''"
    using inst by (simp add: errs secs)
  have app: "serverErrors (deliver (ChildStdout 0 ''  line 12 \<newline>'') s1)
               = serverErrors s1 @ [trim ''  line 12 \<newline>'']"
    using inst len by simp
  show ?thesis
    using app
    by (simp add: waitForServer_def example_started_simps first steps last msg errs trimmed
          s1_def [symmetric])
qed

section \<open>The exit of the child while the poller runs\<close>

lemma loop_never_fails_fast:
  "exited_code s = None \<Longrightarrow>
   (case waitForServer_loop ticks start timeout now s of
      (r, now', s') \<Rightarrow>
        r = Inr () \<or>
        (r = Inl (Error (timeout_message timeout (serverErrors s'))) \<and> timeout \<le> now' - start))"
proof (induction ticks start timeout now s rule: waitForServer_loop.induct)
  case (1 ticks start timeout now s)
  show ?case
  proof (cases "now - start < timeout")
    case False
    then show ?thesis by (simp add: loop_deadline)
  next
    case True
    show ?thesis
    proof (cases "fst (probe (reply (next_tick ticks))) = Inr ()")
      case ok: True
      with True "1.prems" show ?thesis by (simp add: loop_success)
    next
      case failed: False
      then obtain e d where p: "probe (reply (next_tick ticks)) = (Inl e, d)"
        by (cases "probe (reply (next_tick ticks))"; cases "fst (probe (reply (next_tick ticks)))")
           auto
      have "exited_code (deliver_all (arrivals (next_tick ticks)) s) = None"
        using "1.prems" by (rule exited_code_deliver_all)
      with "1.IH" [OF True "1.prems" p [symmetric] refl] True "1.prems" failed p
      show ?thesis by (simp add: loop_retry)
    qed
  qed
qed

lemma exited_code_after_start:
  "exited_code ((snd (startServer ctx port s))\<lparr>serverProcess := Some (fst (startServer ctx port s))\<rparr>)
     = None"
  by (simp add: exited_code_def startServer_def Let_def)

text \<open>
  Claim C8 says that the poller fails on its next turn, with the child's output in the
  message, once the child has exited with a non-zero code. Here is a run in which the code
  does not: the child writes
  one line to its standard error and exits with code 1 during the first probe. The exit
  handler has cleared \<open>serverProcess\<close> before the loop tests it again, so the test for an
  exited process is false in every later turn: \<open>waitForServer\<close> keeps probing until the
  30000 milliseconds have passed and throws the timeout message, not the message of an
  exited process.
\<close>

theorem poller_waits_out_deadline_after_exit:
  "fst (waitForServer
          [\<lparr>arrivals = [ChildStderr 0 ''Error: listen EADDRINUSE'', ChildExit 0 (ExitCode 1)],
            reply = Fails 2 (Error ''connect ECONNREFUSED'')\<rparr>] example_started)
     = Inl (Error ''Server startup timeout after 30s.\<newline>\<newline>Server output:\<newline>Error: listen EADDRINUSE'')
   \<and> clock (snd (waitForServer
          [\<lparr>arrivals = [ChildStderr 0 ''Error: listen EADDRINUSE'', ChildExit 0 (ExitCode 1)],
            reply = Fails 2 (Error ''connect ECONNREFUSED'')\<rparr>] example_started)) = 30202
   \<and> exitCode (children (snd (waitForServer
          [\<lparr>arrivals = [ChildStderr 0 ''Error: listen EADDRINUSE'', ChildExit 0 (ExitCode 1)],
            reply = Fails 2 (Error ''connect ECONNREFUSED'')\<rparr>] example_started)) ! 0) = Some 1"
proof -
  define s1 where "s1 = deliver_all [ChildStderr 0 ''Error: listen EADDRINUSE'',
                                      ChildExit 0 (ExitCode 1)] example_started"
  have s1: "serverProcess s1 = None" "serverErrors s1 = [''Error: listen EADDRINUSE'']"
    "exitCode (children s1 ! 0) = Some 1"
    by (simp_all add: s1_def deliver_all_def deliver_def on_stderr_def on_exit_def record_exit_def
          running_def trim_def ws_eval example_started_simps Let_def)
  have ex: "exited_code s1 = None"
    by (simp add: exited_code_def s1)
  have first: "waitForServer_loop
          [\<lparr>arrivals = [ChildStderr 0 ''Error: listen EADDRINUSE'', ChildExit 0 (ExitCode 1)],
            reply = Fails 2 (Error ''connect ECONNREFUSED'')\<rparr>] 0 30000 0 example_started
        = waitForServer_loop [] 0 30000 202 s1"
    by (simp add: loop_retry example_started_exited_code next_tick_def probe_def s1_def)
  have silent: "now < 30000 \<Longrightarrow>
      waitForServer_loop [] 0 30000 now s1 = waitForServer_loop [] 0 30000 (now + 1200) s1" for now
    using ex by (simp add: loop_retry next_tick_def probe_def deliver_all_def add.commute)
  have rest: "waitForServer_loop [] 0 30000 202 s1
                = (Inl (Error (timeout_message 30000 (serverErrors s1))), 30202, s1)"
    by (simp add: silent loop_deadline)
  have msg: "timeout_message 30000 [''Error: listen EADDRINUSE'']
               = ''Server startup timeout after 30s.\<newline>\<newline>Server output:\<newline>Error: listen EADDRINUSE''"
    by (simp add: timeout_message_def show_seconds_def show_nat.simps slice_from_def
          rel_index_def)
  show ?thesis
    by (simp add: waitForServer_def example_started_simps first rest msg s1)
qed


section \<open>The single-instance invariant\<close>

lemma waitForServer_first_probe_ok:
  "exited_code s = None \<Longrightarrow> d < 1000 \<Longrightarrow>
   waitForServer [\<lparr>arrivals = evs, reply = Responds d 200\<rparr>] s =
     (Inr (), (deliver_all evs s)\<lparr>clock := clock s + d\<rparr>)"
  by (simp add: waitForServer_def loop_success next_tick_def probe_def)

lemma activate_restart_guarded:
  "serverProcess s \<noteq> None \<Longrightarrow> activate_restart ctx granted ticks s = (Inr (), s)"
  by (auto simp: activate_restart_def)

lemma on_activate_keeps_children:
  "serverProcess s \<noteq> None \<Longrightarrow> children (on_activate ctx granted ticks s) = children s"
  by (simp add: on_activate_def activate_body_def activate_restart_guarded createWindow_def)

text \<open>
  Claim C3 says that no second server is ever started while one is live. Here is a run in
  which the code starts one. In the example
  sequence of events the exit handler of the first server, which was stopped, clears
  \<open>serverProcess\<close> while it refers to the second; the second server keeps running, is not
  stopped when the window closes, and the next \<open>activate\<close> starts a third beside it. At
  the end two children run that were never sent a signal, and \<open>serverProcess\<close> refers to
  the last one only.
\<close>

theorem stale_exit_handler_allows_second_server:
  "live_children (run example_context example_trace initial_state) = [1, 2]
   \<and> serverProcess (run example_context example_trace initial_state) = Some 2
   \<and> map killed (children (run example_context example_trace initial_state))
       = [True, False, False]"
  by (simp add: run_def example_trace_def handle_def on_ready_def ready_body_def
        on_window_all_closed_def on_activate_def activate_body_def activate_restart_def stop_server_def
        kill_child_def app_quit_def on_before_quit_def createWindow_def startServer_def
        loadUserShellEnv_def loadUserShellEnv_body_def example_context_def initial_state_def
        waitForServer_first_probe_ok exited_code_def deliver_all_def deliver_def on_exit_def
        record_exit_def running_def live_children_def Let_def upt_rec nth_append
        split: prod.splits)

end
